theory Spec2Isabelle
  imports Complex_Main "HOL-Library.AList" "HOL-Library.Char_ord" "HOL-Library.List_Lexorder"
begin

section \<open>Python values and primitives used by the analysis service\<close>

text \<open>
  The service works on values decoded from JSON (the robot catalog metadata, the task list
  and the automation options produced by the generative model) and on the request's
  financial parameters. A decoded value is one of Python's \<open>None\<close>, \<open>bool\<close>, a number,
  \<open>str\<close>, \<open>list\<close> or \<open>dict\<close>. A \<open>dict\<close> is kept as an association list, read with
  \<open>map_of\<close>. Python's \<open>int\<close> and \<open>float\<close> are both idealised as \<open>real\<close>. No float
  has a magnitude of \<open>2^1024 - 2^970\<close> or more, so a number that large is an \<open>int\<close>
  beyond the range of floats, and converting it to a float raises \<open>OverflowError\<close>.
  Rounding, NaN and the infinities (what float arithmetic answers when its result
  leaves the range) are outside this model.
\<close>

datatype json =
    JNull
  | JBool bool
  | JNum real
  | JStr string
  | JArr "json list"
  | JObj "(string \<times> json) list"

datatype pyexc =
    ValueError | TypeError | ZeroDivisionError | KeyError | AttributeError | OverflowError
  | BadRequest

text \<open>Sequencing of steps that may raise: the first exception ends the computation.\<close>

definition ebind :: "pyexc + 'a \<Rightarrow> ('a \<Rightarrow> pyexc + 'b) \<Rightarrow> pyexc + 'b" where
  "ebind m f = (case m of Inl e \<Rightarrow> Inl e | Inr x \<Rightarrow> f x)"

text \<open>
  The conversion of a number to a float, as \<open>float(x)\<close> and the \<open>f\<close> format do it: an
  \<open>int\<close> converts when it rounds to a finite float, that is when its magnitude is below
  \<open>2^1024 - 2^970\<close>, and raises \<open>OverflowError\<close> otherwise.
\<close>

definition too_large_for_float :: "real \<Rightarrow> bool" where
  "too_large_for_float r = (2 ^ 1024 - 2 ^ 970 \<le> \<bar>r\<bar>)"

definition number_to_float :: "real \<Rightarrow> pyexc + real" where
  "number_to_float r = (if too_large_for_float r then Inl OverflowError else Inr r)"

text \<open>
  \<open>float(v)\<close>. A number converts as above, a \<open>bool\<close> to 1 or 0, \<open>None\<close> and containers
  raise \<open>TypeError\<close>, and a string is parsed: Python's grammar of float literals is the
  parameter \<open>pf\<close> (\<open>None\<close> where \<open>float\<close> raises \<open>ValueError\<close>).
\<close>

fun py_float :: "(string \<Rightarrow> real option) \<Rightarrow> json \<Rightarrow> pyexc + real" where
  "py_float pf (JNum r) = number_to_float r"
| "py_float pf (JBool b) = Inr (if b then 1 else 0)"
| "py_float pf (JStr s) = (case pf s of None \<Rightarrow> Inl ValueError | Some r \<Rightarrow> Inr r)"
| "py_float pf JNull = Inl TypeError"
| "py_float pf (JArr xs) = Inl TypeError"
| "py_float pf (JObj kvs) = Inl TypeError"

text \<open>\<open>d.get(k)\<close> on a \<open>dict\<close>: the value, or \<open>None\<close> when the key is absent.\<close>

definition dict_get :: "(string \<times> json) list \<Rightarrow> string \<Rightarrow> json" where
  "dict_get d k = (case map_of d k of None \<Rightarrow> JNull | Some v \<Rightarrow> v)"

section \<open>calculate_effective_robot_cost\<close>

text \<open>The function returns a float or the string "N/A".\<close>

datatype cost = Cost real | NA

text \<open>
  The inner \<open>try: X_float = float(X) except (ValueError, TypeError)\<close> blocks for the
  purchase price and the end effector percentage: the variable keeps its initial 0.0
  when the field is \<open>None\<close> or when \<open>float\<close> raises one of the two exceptions named;
  any other exception leaves the block.
\<close>

definition float_or_zero :: "(string \<Rightarrow> real option) \<Rightarrow> json \<Rightarrow> pyexc + real" where
  "float_or_zero pf v =
     (if v \<noteq> JNull
      then (case py_float pf v of
              Inr r \<Rightarrow> Inr r
            | Inl e \<Rightarrow> (if e = ValueError \<or> e = TypeError then Inr 0 else Inl e))
      else Inr 0)"

text \<open>The body of the outer \<open>try\<close> (lines 34 to 122).\<close>

definition cost_try_body ::
  "(string \<Rightarrow> real option) \<Rightarrow> (string \<times> json) list \<Rightarrow> json \<Rightarrow> json \<Rightarrow> json \<Rightarrow> pyexc + cost" where
  "cost_try_body pf robot_info depreciation_years hours_per_week efficiency_gain =
     (let C = dict_get robot_info ''purchase_price'';
          Op = dict_get robot_info ''op_cost_per_min'';
          E = dict_get robot_info ''end_effector_cost_percent''
      in if Op = JNull then Inr NA
         else
              ebind (float_or_zero pf C) (\<lambda>C_float.
              ebind (float_or_zero pf E) (\<lambda>E_float.
              ebind (py_float pf depreciation_years) (\<lambda>T.
              ebind (py_float pf hours_per_week) (\<lambda>H.
              ebind (py_float pf efficiency_gain) (\<lambda>G.
              ebind (py_float pf Op) (\<lambda>O_float.
                if T \<le> 0 \<or> H \<le> 0 then Inr NA
                else if 1 + G \<le> 0 then Inr NA
                else
                  let total_capex = C_float * (1 + E_float);
                      total_operating_minutes_in_life = T * 52 * H * 60;
                      capex_per_min =
                        (if total_operating_minutes_in_life > 0
                         then total_capex / total_operating_minutes_in_life else 0);
                      robot_raw_cost_per_min = capex_per_min + O_float
                  in if 1 + G = 0 then Inl ZeroDivisionError
                     else Inr (Cost (robot_raw_cost_per_min / (1 + G))))))))))"

text \<open>
  The whole function: \<open>except (ValueError, TypeError, ZeroDivisionError)\<close> turns these
  three into "N/A"; any other exception would leave the function.
\<close>

definition calculate_effective_robot_cost ::
  "(string \<Rightarrow> real option) \<Rightarrow> (string \<times> json) list \<Rightarrow> json \<Rightarrow> json \<Rightarrow> json \<Rightarrow> pyexc + cost" where
  "calculate_effective_robot_cost pf robot_info depreciation_years hours_per_week efficiency_gain =
     (case cost_try_body pf robot_info depreciation_years hours_per_week efficiency_gain of
        Inr c \<Rightarrow> Inr c
      | Inl e \<Rightarrow>
          (if e = ValueError \<or> e = TypeError \<or> e = ZeroDivisionError then Inr NA else Inl e))"

section \<open>More Python primitives\<close>

text \<open>Truth value of a decoded value (\<open>if x:\<close>, \<open>not x\<close>).\<close>

fun py_truthy :: "json \<Rightarrow> bool" where
  "py_truthy JNull = False"
| "py_truthy (JBool b) = b"
| "py_truthy (JNum r) = (r \<noteq> 0)"
| "py_truthy (JStr s) = (s \<noteq> [])"
| "py_truthy (JArr xs) = (xs \<noteq> [])"
| "py_truthy (JObj kvs) = (kvs \<noteq> [])"

text \<open>
  \<open>isinstance(v, (int, float))\<close> with the value as a number: \<open>bool\<close> is a subclass of
  \<open>int\<close>, so \<open>True\<close> and \<open>False\<close> count as 1 and 0.
\<close>

fun as_number :: "json \<Rightarrow> real option" where
  "as_number (JNum r) = Some r"
| "as_number (JBool b) = Some (if b then 1 else 0)"
| "as_number JNull = None"
| "as_number (JStr s) = None"
| "as_number (JArr xs) = None"
| "as_number (JObj kvs) = None"

text \<open>\<open>x.get(k)\<close> and \<open>x.get(k, default)\<close>: only a \<open>dict\<close> has the method.\<close>

fun obj_get :: "json \<Rightarrow> string \<Rightarrow> pyexc + json" where
  "obj_get (JObj d) k = Inr (dict_get d k)"
| "obj_get JNull k = Inl AttributeError"
| "obj_get (JBool b) k = Inl AttributeError"
| "obj_get (JNum r) k = Inl AttributeError"
| "obj_get (JStr s) k = Inl AttributeError"
| "obj_get (JArr xs) k = Inl AttributeError"

fun obj_get_default :: "json \<Rightarrow> string \<Rightarrow> json \<Rightarrow> pyexc + json" where
  "obj_get_default (JObj d) k dflt = Inr (case map_of d k of None \<Rightarrow> dflt | Some v \<Rightarrow> v)"
| "obj_get_default JNull k dflt = Inl AttributeError"
| "obj_get_default (JBool b) k dflt = Inl AttributeError"
| "obj_get_default (JNum r) k dflt = Inl AttributeError"
| "obj_get_default (JStr s) k dflt = Inl AttributeError"
| "obj_get_default (JArr xs) k dflt = Inl AttributeError"

text \<open>
  \<open>x['key']\<close> with a string key: \<open>KeyError\<close> on a \<open>dict\<close> without the key,
  \<open>TypeError\<close> on everything that is not a \<open>dict\<close>.
\<close>

fun py_subscript :: "json \<Rightarrow> string \<Rightarrow> pyexc + json" where
  "py_subscript (JObj d) k = (case map_of d k of None \<Rightarrow> Inl KeyError | Some v \<Rightarrow> Inr v)"
| "py_subscript JNull k = Inl TypeError"
| "py_subscript (JBool b) k = Inl TypeError"
| "py_subscript (JNum r) k = Inl TypeError"
| "py_subscript (JStr s) k = Inl TypeError"
| "py_subscript (JArr xs) k = Inl TypeError"

text \<open>
  Iteration (\<open>for x in v\<close>): a list gives its elements, a string its characters and a
  \<open>dict\<close> its keys; the other values are not iterable. \<open>len(v)\<close> likewise.
\<close>

fun py_iter :: "json \<Rightarrow> pyexc + json list" where
  "py_iter (JArr xs) = Inr xs"
| "py_iter (JStr s) = Inr (map (\<lambda>c. JStr [c]) s)"
| "py_iter (JObj d) = Inr (map JStr (remdups (map fst d)))"
| "py_iter JNull = Inl TypeError"
| "py_iter (JBool b) = Inl TypeError"
| "py_iter (JNum r) = Inl TypeError"

fun py_len :: "json \<Rightarrow> pyexc + nat" where
  "py_len (JArr xs) = Inr (length xs)"
| "py_len (JStr s) = Inr (length s)"
| "py_len (JObj d) = Inr (length (remdups (map fst d)))"
| "py_len JNull = Inl TypeError"
| "py_len (JBool b) = Inl TypeError"
| "py_len (JNum r) = Inl TypeError"

text \<open>
  Equality (\<open>==\<close>) of decoded values. \<open>True == 1\<close> and \<open>False == 0\<close>; lists are equal
  elementwise; two \<open>dict\<close>s are equal when they bind the same keys to equal values, in
  any order. \<open>canon\<close> computes a normal form: booleans become numbers, and the bindings
  of a \<open>dict\<close> are reduced to the ones \<open>map_of\<close> reads and sorted by key.
\<close>

primrec canon :: "json \<Rightarrow> json" where
  "canon JNull = JNull"
| "canon (JBool b) = JNum (if b then 1 else 0)"
| "canon (JNum r) = JNum r"
| "canon (JStr s) = JStr s"
| "canon (JArr xs) = JArr (map canon xs)"
| "canon (JObj kvs) = JObj (sort_key fst (AList.clearjunk (map (map_prod id canon) kvs)))"

definition py_eq :: "json \<Rightarrow> json \<Rightarrow> bool" where
  "py_eq a b = (canon a = canon b)"

text \<open>Only \<open>None\<close>, booleans, numbers and strings can be keys of a \<open>dict\<close> or members of a \<open>set\<close>.\<close>

fun hashable :: "json \<Rightarrow> bool" where
  "hashable (JArr xs) = False"
| "hashable (JObj kvs) = False"
| "hashable JNull = True"
| "hashable (JBool b) = True"
| "hashable (JNum r) = True"
| "hashable (JStr s) = True"

text \<open>
  A \<open>dict\<close> built by the service itself, with decoded values as keys: an association
  list in insertion order. \<open>pd_set\<close> is \<open>d[k] = v\<close> (\<open>TypeError\<close> for a key that cannot
  be hashed): an existing key keeps its place and gets the new value. \<open>pd_get\<close> reads.
\<close>

fun pd_update :: "(json \<times> 'v) list \<Rightarrow> json \<Rightarrow> 'v \<Rightarrow> (json \<times> 'v) list" where
  "pd_update [] k v = [(k, v)]"
| "pd_update ((k', v') # d) k v =
     (if py_eq k' k then (k', v) # d else (k', v') # pd_update d k v)"

definition pd_set :: "(json \<times> 'v) list \<Rightarrow> json \<Rightarrow> 'v \<Rightarrow> pyexc + (json \<times> 'v) list" where
  "pd_set d k v = (if hashable k then Inr (pd_update d k v) else Inl TypeError)"

fun pd_get :: "(json \<times> 'v) list \<Rightarrow> json \<Rightarrow> 'v option" where
  "pd_get [] k = None"
| "pd_get ((k', v') # d) k = (if py_eq k' k then Some v' else pd_get d k)"

text \<open>\<open>k in d\<close> followed by \<open>d[k]\<close>: hashing the key comes first.\<close>

definition pd_lookup :: "(json \<times> 'v) list \<Rightarrow> json \<Rightarrow> pyexc + 'v option" where
  "pd_lookup d k = (if hashable k then Inr (pd_get d k) else Inl TypeError)"

text \<open>
  \<open>set(xs)\<close>. Python fixes no iteration order for a set; the model iterates in the order
  of first occurrence. The sums computed over a set do not depend on the order; only
  which of several possible exceptions is raised first can.
\<close>

fun set_add :: "json list \<Rightarrow> json \<Rightarrow> json list" where
  "set_add [] x = [x]"
| "set_add (y # ys) x = (if py_eq y x then y # ys else y # set_add ys x)"

fun py_set_from :: "json list \<Rightarrow> json list \<Rightarrow> pyexc + json list" where
  "py_set_from acc [] = Inr acc"
| "py_set_from acc (x # xs) =
     (if hashable x then py_set_from (set_add acc x) xs else Inl TypeError)"

definition py_set :: "json list \<Rightarrow> pyexc + json list" where
  "py_set xs = py_set_from [] xs"

text \<open>
  \<open>s.lower()\<close> and \<open>sub in s\<close> on strings. Strings are byte strings here and only the
  ASCII capitals are lowered, which is all the tests for the ASCII keywords below can see.
\<close>

definition lower_char :: "char \<Rightarrow> char" where
  "lower_char c =
     (case map_of (zip ''ABCDEFGHIJKLMNOPQRSTUVWXYZ'' ''abcdefghijklmnopqrstuvwxyz'') c of
        None \<Rightarrow> c | Some l \<Rightarrow> l)"

definition lower :: "string \<Rightarrow> string" where
  "lower s = map lower_char s"

fun starts_with :: "string \<Rightarrow> string \<Rightarrow> bool" where
  "starts_with [] s = True"
| "starts_with (a # p) [] = False"
| "starts_with (a # p) (b # s) = (a = b \<and> starts_with p s)"

fun str_contains :: "string \<Rightarrow> string \<Rightarrow> bool" where
  "str_contains sub [] = (sub = [])"
| "str_contains sub (c # s) = (starts_with sub (c # s) \<or> str_contains sub s)"

text \<open>\<open>int(x)\<close> of a float truncates towards zero.\<close>

definition py_int :: "real \<Rightarrow> int" where
  "py_int x = (if 0 \<le> x then \<lfloor>x\<rfloor> else \<lceil>x\<rceil>)"

section \<open>determine_recommendation_new\<close>

text \<open>
  The entries of \<open>cost_benefit_results\<close> are built by \<open>perform_full_analysis\<close> itself,
  so they are records here; tasks, automation options and robots are decoded values.
\<close>

record cost_entry =
  ce_robot_name :: json
  ce_robot_effective_cost_per_human_min :: cost
  ce_human_cost_per_min :: real
  ce_is_cheaper :: "bool option"

record option_result =
  or_option_id :: json
  or_robot_cost_comparison :: "cost_entry list"

record cycle_metrics =
  cycle_time_mins :: real
  cycles_per_hour :: real
  cycles_per_year :: real

record option_saving =
  os_option_id :: json
  os_num_automated_tasks :: nat
  os_num_tasks_with_savings :: nat
  os_savings_per_cycle :: real
  os_annual_savings :: real
  os_percent_savings :: real

record option_projection =
  op_option_id :: json
  op_baseline_cost_per_cycle :: real
  op_robot_cost_per_cycle :: real
  op_annual_baseline_cost :: real
  op_annual_cost_with_automation :: real
  op_robot_capex :: real
  op_cumulative_costs_by_year :: "real list"
  op_baseline_cumulative_costs_by_year :: "real list"

text \<open>
  The three justification texts; the recommended one is formatted from the winning
  option's figures.
\<close>

datatype justification =
    No_valid_cost_data
  | Option_recommended json option_saving
  | Not_cost_effective

text \<open>
  The returned \<open>dict\<close>: the early return has the two keys \<open>recommended_option_id\<close>
  (\<open>None\<close>) and \<open>justification\<close> only; the final return also has \<open>option_savings\<close>,
  \<open>annual_projections\<close> and \<open>chart_data_verified: True\<close>.
\<close>

datatype recommendation =
    Rec_no_data
  | Rec_full json justification "option_saving list" "option_projection list"

fun recommended_option_id :: "recommendation \<Rightarrow> json" where
  "recommended_option_id Rec_no_data = JNull"
| "recommended_option_id (Rec_full i j svs prs) = i"

fun rec_option_savings :: "recommendation \<Rightarrow> option_saving list" where
  "rec_option_savings Rec_no_data = []"
| "rec_option_savings (Rec_full i j svs prs) = svs"

fun rec_annual_projections :: "recommendation \<Rightarrow> option_projection list" where
  "rec_annual_projections Rec_no_data = []"
| "rec_annual_projections (Rec_full i j svs prs) = prs"

text \<open>Line 156: \<open>[t for t in tasks if t.get('actor_type') == 'human']\<close>.\<close>

fun human_tasks_of :: "json list \<Rightarrow> pyexc + json list" where
  "human_tasks_of [] = Inr []"
| "human_tasks_of (t # ts) =
     ebind (obj_get t ''actor_type'') (\<lambda>a.
     ebind (human_tasks_of ts) (\<lambda>r.
       Inr (if a = JStr ''human'' then t # r else r)))"

text \<open>Lines 152 to 160, with \<open>task_duration_mins = 1.0\<close> and \<open>weeks_per_year = 52\<close>.\<close>

definition compute_cycle_metrics :: "nat \<Rightarrow> real \<Rightarrow> cycle_metrics" where
  "compute_cycle_metrics total_human_tasks hours_per_week =
     (let cycle_time = real total_human_tasks * 1;
          per_hour = (if cycle_time > 0 then 60 / cycle_time else 1)
      in \<lparr> cycle_time_mins = cycle_time,
           cycles_per_hour = per_hour,
           cycles_per_year = per_hour * hours_per_week * 52 \<rparr>)"

definition process_metrics :: "json list \<Rightarrow> real \<Rightarrow> pyexc + cycle_metrics" where
  "process_metrics tasks hours_per_week =
     ebind (human_tasks_of tasks) (\<lambda>human_tasks.
       Inr (compute_cycle_metrics (length human_tasks) hours_per_week))"

text \<open>Lines 175 to 180: the lookup table of robot metadata by name.\<close>

fun robot_metadata_from ::
  "(json \<times> (string \<times> json) list) list \<Rightarrow> json list \<Rightarrow> pyexc + (json \<times> (string \<times> json) list) list" where
  "robot_metadata_from m [] = Inr m"
| "robot_metadata_from m (JObj robot # rs) =
     (let robot_name = dict_get robot ''robot_name''
      in if py_truthy robot_name
         then ebind (pd_set m robot_name robot) (\<lambda>m'. robot_metadata_from m' rs)
         else robot_metadata_from m rs)"
| "robot_metadata_from m (r # rs) = Inl AttributeError"

text \<open>Lines 187 to 191: the first automation option with the result's \<open>option_id\<close>.\<close>

fun find_option :: "json list \<Rightarrow> json \<Rightarrow> pyexc + json option" where
  "find_option [] option_id = Inr None"
| "find_option (opt # opts) option_id =
     ebind (obj_get opt ''option_id'') (\<lambda>i.
       if py_eq i option_id then Inr (Some opt) else find_option opts option_id)"

text \<open>Line 200: \<open>{assign['task_id']: assign['robot_name'] for assign in assignments}\<close>.\<close>

fun task_to_robot_map_from :: "(json \<times> json) list \<Rightarrow> json list \<Rightarrow> pyexc + (json \<times> json) list" where
  "task_to_robot_map_from m [] = Inr m"
| "task_to_robot_map_from m (assign # rest) =
     ebind (py_subscript assign ''task_id'') (\<lambda>task_id.
     ebind (py_subscript assign ''robot_name'') (\<lambda>robot_name.
     ebind (pd_set m task_id robot_name) (\<lambda>m'.
       task_to_robot_map_from m' rest)))"

text \<open>Lines 203 to 208: the numeric robot costs by robot name.\<close>

fun robot_cost_map_from :: "(json \<times> real) list \<Rightarrow> cost_entry list \<Rightarrow> pyexc + (json \<times> real) list" where
  "robot_cost_map_from m [] = Inr m"
| "robot_cost_map_from m (robot_comp # rest) =
     (case ce_robot_effective_cost_per_human_min robot_comp of
        Cost c \<Rightarrow>
          ebind (pd_set m (ce_robot_name robot_comp) c) (\<lambda>m'. robot_cost_map_from m' rest)
      | NA \<Rightarrow> robot_cost_map_from m rest)"

text \<open>
  Lines 211 to 232: the loop over the human tasks. The accumulator is
  \<open>(total_cost_with_automation_per_cycle, total_human_cost_per_cycle)\<close>.
\<close>

fun cycle_costs ::
  "real \<Rightarrow> (json \<times> json) list \<Rightarrow> (json \<times> real) list \<Rightarrow> json list \<Rightarrow> real \<times> real \<Rightarrow> pyexc + real \<times> real" where
  "cycle_costs human_cost_min task_to_robot_map robot_cost_map [] acc = Inr acc"
| "cycle_costs human_cost_min task_to_robot_map robot_cost_map (task # rest) (with_automation, human_only) =
     ebind (obj_get task ''id'') (\<lambda>task_id.
     let human_cost = human_cost_min * 1;
         human_only' = human_only + human_cost
     in ebind (pd_lookup task_to_robot_map task_id) (\<lambda>assigned.
        case assigned of
          Some robot_name \<Rightarrow>
            ebind (pd_lookup robot_cost_map robot_name) (\<lambda>known.
              case known of
                Some c \<Rightarrow>
                  cycle_costs human_cost_min task_to_robot_map robot_cost_map rest
                    (with_automation + c * 1, human_only')
              | None \<Rightarrow>
                  cycle_costs human_cost_min task_to_robot_map robot_cost_map rest
                    (with_automation + human_cost, human_only'))
        | None \<Rightarrow>
            cycle_costs human_cost_min task_to_robot_map robot_cost_map rest
              (with_automation + human_cost, human_only')))"

text \<open>Lines 265 to 274: the estimate used when a robot has no valid purchase price.\<close>

definition default_purchase_price :: "string \<Rightarrow> real" where
  "default_purchase_price robot_name =
     (if str_contains ''atlas'' (lower robot_name) then 250000
      else if str_contains ''jvrc'' (lower robot_name) then 150000
      else if str_contains ''digit'' (lower robot_name) then 200000
      else if str_contains ''ggc'' (lower robot_name) \<or> str_contains ''testmodel'' (lower robot_name)
        then 180000
      else 100000)"

text \<open>
  Lines 250 to 282 for one robot name of \<open>unique_robots\<close>: \<open>.lower()\<close> exists on strings
  only, and \<open>1 + robot_end_effector_pct\<close> needs a number. A price or a percentage that
  is an \<open>int\<close> beyond the range of floats raises \<open>OverflowError\<close>, in the product of
  line 279 when the other factor is a float and in the \<open>f\<close> formats of line 282
  otherwise.
\<close>

definition robot_total_cost :: "(json \<times> (string \<times> json) list) list \<Rightarrow> json \<Rightarrow> pyexc + real" where
  "robot_total_cost robot_metadata robot_name =
     (let robot_info = pd_get robot_metadata robot_name;
          robot_purchase_price =
            (case robot_info of None \<Rightarrow> JNull
             | Some info \<Rightarrow> (case map_of info ''purchase_price'' of None \<Rightarrow> JNull | Some v \<Rightarrow> v));
          robot_end_effector_pct =
            (case robot_info of None \<Rightarrow> JNum (1/4)
             | Some info \<Rightarrow>
                 (case map_of info ''end_effector_cost_percent'' of None \<Rightarrow> JNum (1/4) | Some v \<Rightarrow> v))
      in ebind
           (case as_number robot_purchase_price of
              Some price \<Rightarrow> Inr price
            | None \<Rightarrow>
                (case robot_name of
                   JStr name \<Rightarrow> Inr (default_purchase_price name)
                 | _ \<Rightarrow> Inl AttributeError))
           (\<lambda>price.
              case as_number robot_end_effector_pct of
                Some pct \<Rightarrow>
                  ebind (number_to_float price) (\<lambda>p.
                  ebind (number_to_float pct) (\<lambda>e.
                    Inr (price * (1 + pct))))
              | None \<Rightarrow> Inl TypeError))"

fun option_capex ::
  "(json \<times> (string \<times> json) list) list \<Rightarrow> json list \<Rightarrow> real \<Rightarrow> pyexc + real" where
  "option_capex robot_metadata [] robot_capex = Inr robot_capex"
| "option_capex robot_metadata (robot_name # rest) robot_capex =
     ebind (robot_total_cost robot_metadata robot_name) (\<lambda>robot_total.
       option_capex robot_metadata rest (robot_capex + robot_total))"

text \<open>
  Lines 318 to 328: the pass over a chart list that replaces an entry found invalid
  (\<open>not isinstance(cost, (int, float)) or math.isnan(cost) or math.isinf(cost)\<close>) by
  \<open>fix i\<close>. On the idealised numbers no entry is NaN or infinite.
\<close>

fun fix_chart :: "(real \<Rightarrow> bool) \<Rightarrow> (nat \<Rightarrow> real) \<Rightarrow> nat \<Rightarrow> real list \<Rightarrow> real list" where
  "fix_chart invalid fix i [] = []"
| "fix_chart invalid fix i (c # cs) =
     (if invalid c then fix i else c) # fix_chart invalid fix (Suc i) cs"

definition math_isnan :: "real \<Rightarrow> bool" where
  "math_isnan x = False"

definition math_isinf :: "real \<Rightarrow> bool" where
  "math_isinf x = False"

definition invalid_chart_value :: "real \<Rightarrow> bool" where
  "invalid_chart_value c = (math_isnan c \<or> math_isinf c)"

text \<open>Lines 291 to 342: the projection of one option.\<close>

definition build_projection :: "json \<Rightarrow> real \<Rightarrow> real \<Rightarrow> real \<Rightarrow> real \<Rightarrow> real \<Rightarrow> real \<Rightarrow> option_projection" where
  "build_projection option_id total_human_cost_per_cycle total_cost_with_automation_per_cycle
       annual_human_cost annual_cost_with_automation robot_capex depreciation_years =
     (let cumulative0 =
            fix_chart invalid_chart_value
              (\<lambda>i. if i = 0 then robot_capex else robot_capex + annual_cost_with_automation * real i)
              0 [robot_capex];
          baseline0 =
            fix_chart invalid_chart_value
              (\<lambda>i. if i = 0 then 0 else annual_human_cost * real i) 0 [0];
          years = [1..py_int depreciation_years]
      in \<lparr> op_option_id = option_id,
           op_baseline_cost_per_cycle = total_human_cost_per_cycle,
           op_robot_cost_per_cycle = total_cost_with_automation_per_cycle,
           op_annual_baseline_cost = annual_human_cost,
           op_annual_cost_with_automation = annual_cost_with_automation,
           op_robot_capex = robot_capex,
           op_cumulative_costs_by_year =
             cumulative0 @ map (\<lambda>year. robot_capex + annual_cost_with_automation * of_int year) years,
           op_baseline_cumulative_costs_by_year =
             baseline0 @ map (\<lambda>year. annual_human_cost * of_int year) years \<rparr>)"

text \<open>Lines 356 to 360: the assigned tasks whose robot is cheaper than the human.\<close>

fun count_tasks_with_savings ::
  "real \<Rightarrow> (json \<times> real) list \<Rightarrow> (json \<times> json) list \<Rightarrow> nat \<Rightarrow> pyexc + nat" where
  "count_tasks_with_savings human_cost_min robot_cost_map [] n = Inr n"
| "count_tasks_with_savings human_cost_min robot_cost_map ((task_id, robot_name) # rest) n =
     ebind (pd_lookup robot_cost_map robot_name) (\<lambda>known.
       count_tasks_with_savings human_cost_min robot_cost_map rest
         (case known of Some c \<Rightarrow> (if c < human_cost_min then Suc n else n) | None \<Rightarrow> n))"

text \<open>
  Lines 183 to 370 for one entry of \<open>cost_benefit_results\<close>: \<open>None\<close> stands for
  \<open>continue\<close> (no automation option found), otherwise the option's savings summary and
  projection.
\<close>

definition evaluate_option ::
  "real \<Rightarrow> json list \<Rightarrow> json list \<Rightarrow> real \<Rightarrow> real \<Rightarrow> (json \<times> (string \<times> json) list) list
     \<Rightarrow> option_result \<Rightarrow> pyexc + (option_saving \<times> option_projection) option" where
  "evaluate_option human_cost_min automation_options human_tasks per_year depreciation_years
       robot_metadata option_result =
     (let option_id = or_option_id option_result;
          robot_costs = or_robot_cost_comparison option_result
      in ebind (find_option automation_options option_id) (\<lambda>found.
         case found of
           None \<Rightarrow> Inr None
         | Some automation_option \<Rightarrow>
             if \<not> py_truthy automation_option then Inr None
             else
               ebind (obj_get_default automation_option ''assignments'' (JArr [])) (\<lambda>assignments.
               ebind (py_len assignments) (\<lambda>num_automated_tasks.
               ebind (py_iter assignments) (\<lambda>assigns.
               ebind (task_to_robot_map_from [] assigns) (\<lambda>task_to_robot_map.
               ebind (robot_cost_map_from [] robot_costs) (\<lambda>robot_cost_map.
               ebind (cycle_costs human_cost_min task_to_robot_map robot_cost_map human_tasks (0, 0))
                 (\<lambda>(total_cost_with_automation_per_cycle, total_human_cost_per_cycle).
               let savings_per_cycle =
                     total_human_cost_per_cycle - total_cost_with_automation_per_cycle;
                   annual_human_cost = total_human_cost_per_cycle * per_year;
                   annual_cost_with_automation = total_cost_with_automation_per_cycle * per_year;
                   annual_savings = savings_per_cycle * per_year
               in ebind (py_set (map snd task_to_robot_map)) (\<lambda>unique_robots.
                  ebind (option_capex robot_metadata unique_robots 0) (\<lambda>robot_capex.
                  ebind (count_tasks_with_savings human_cost_min robot_cost_map task_to_robot_map 0)
                    (\<lambda>num_tasks_with_savings.
                  Inr (Some
                    (\<lparr> os_option_id = option_id,
                        os_num_automated_tasks = num_automated_tasks,
                        os_num_tasks_with_savings = num_tasks_with_savings,
                        os_savings_per_cycle = savings_per_cycle,
                        os_annual_savings = annual_savings,
                        os_percent_savings =
                          (if total_human_cost_per_cycle > 0
                           then savings_per_cycle / total_human_cost_per_cycle * 100 else 0) \<rparr>,
                     build_projection option_id total_human_cost_per_cycle
                       total_cost_with_automation_per_cycle annual_human_cost
                       annual_cost_with_automation robot_capex depreciation_years)))))))))))))"

text \<open>
  The variables the loop over \<open>cost_benefit_results\<close> updates. \<open>highest_total_savings\<close>
  starts at \<open>-inf\<close>, which is \<open>None\<close> here; \<open>best_option_details\<close> holds the figures of the
  incumbent option (\<open>None\<close> for the initial \<open>{}\<close>).
\<close>

record selection =
  best_option_id :: json
  highest_total_savings :: "real option"
  best_option_details :: "option_saving option"
  option_savings :: "option_saving list"
  annual_projections :: "option_projection list"

definition initial_selection :: selection where
  "initial_selection =
     \<lparr> best_option_id = JNull, highest_total_savings = None, best_option_details = None,
       option_savings = [], annual_projections = [] \<rparr>"

text \<open>\<open>x > highest_total_savings\<close>.\<close>

fun exceeds :: "real \<Rightarrow> real option \<Rightarrow> bool" where
  "exceeds x None = True"
| "exceeds x (Some h) = (x > h)"

text \<open>Lines 353 to 384: the appends and the update of the incumbent.\<close>

definition record_option :: "selection \<Rightarrow> option_saving \<Rightarrow> option_projection \<Rightarrow> selection" where
  "record_option st saving projection =
     (let st1 = st \<lparr> annual_projections := annual_projections st @ [projection],
                     option_savings := option_savings st @ [saving] \<rparr>
      in if exceeds (os_annual_savings saving) (highest_total_savings st)
            \<and> os_annual_savings saving > 0
         then st1 \<lparr> highest_total_savings := Some (os_annual_savings saving),
                    best_option_id := os_option_id saving,
                    best_option_details := Some saving \<rparr>
         else st1)"

fun options_loop ::
  "real \<Rightarrow> json list \<Rightarrow> json list \<Rightarrow> real \<Rightarrow> real \<Rightarrow> (json \<times> (string \<times> json) list) list
     \<Rightarrow> selection \<Rightarrow> option_result list \<Rightarrow> pyexc + selection" where
  "options_loop human_cost_min automation_options human_tasks per_year depreciation_years
       robot_metadata st [] = Inr st"
| "options_loop human_cost_min automation_options human_tasks per_year depreciation_years
       robot_metadata st (option_result # rest) =
     ebind (evaluate_option human_cost_min automation_options human_tasks per_year
              depreciation_years robot_metadata option_result) (\<lambda>evaluated.
       case evaluated of
         None \<Rightarrow>
           options_loop human_cost_min automation_options human_tasks per_year
             depreciation_years robot_metadata st rest
       | Some (saving, projection) \<Rightarrow>
           options_loop human_cost_min automation_options human_tasks per_year
             depreciation_years robot_metadata (record_option st saving projection) rest)"

text \<open>Lines 388 to 416: the recommendation prepared from the loop's variables.\<close>

definition prepare_recommendation :: "selection \<Rightarrow> recommendation" where
  "prepare_recommendation st =
     (if py_truthy (best_option_id st)
         \<and> (case highest_total_savings st of None \<Rightarrow> False | Some h \<Rightarrow> h > 0)
      then Rec_full (best_option_id st)
             (case best_option_details st of
                Some details \<Rightarrow> Option_recommended (best_option_id st) details
              | None \<Rightarrow> Not_cost_effective)
             (option_savings st) (annual_projections st)
      else Rec_full (JStr ''No_Automation'') Not_cost_effective
             (option_savings st) (annual_projections st))"

definition determine_recommendation_new ::
  "option_result list \<Rightarrow> real \<Rightarrow> json list \<Rightarrow> json list \<Rightarrow> real \<Rightarrow> real \<Rightarrow> json list
     \<Rightarrow> pyexc + recommendation" where
  "determine_recommendation_new cost_benefit_results human_cost_min automation_options tasks
       depreciation_years hours_per_week available_robots =
     ebind (human_tasks_of tasks) (\<lambda>human_tasks.
       let metrics = compute_cycle_metrics (length human_tasks) hours_per_week
       in if cost_benefit_results = [] \<or> human_cost_min \<le> 0 then Inr Rec_no_data
          else
            ebind (robot_metadata_from [] available_robots) (\<lambda>robot_metadata.
            ebind (options_loop human_cost_min automation_options human_tasks
                     (cycles_per_year metrics) depreciation_years robot_metadata
                     initial_selection cost_benefit_results) (\<lambda>st.
              Inr (prepare_recommendation st))))"

section \<open>perform_full_analysis\<close>

text \<open>
  The three external collaborators are the video analysis, the robot catalog loader and
  the text generation. Their replies are given: what \<open>analyze_video_process\<close> returns
  (\<open>None\<close> is \<open>JNull\<close>), the list \<open>get_available_robots\<close> returns, and the value of
  \<open>automation_options\<close> after the parsing block of lines 516 to 601, which always leaves
  a list (every other outcome is replaced by \<open>[]\<close> there). The model returns the calls
  made, in order, together with the outcome.
\<close>

record collaborators =
  analyze_video_process :: json
  get_available_robots :: "json list"
  parsed_automation_options :: "json list"

datatype call = Call_analyze_video_process | Call_get_available_robots | Call_generate_text_analysis

datatype error_message =
    Invalid_financial_input
  | Failed_video_analysis
  | No_robot_definitions
  | Invalid_json_payload
  | Missing_required_fields "string list"
  | Invalid_video_uri
  | Invalid_numerical_input
  | Unexpected_server_error

datatype payload =
    P_error error_message
  | P_json "json list"
  | P_cost_benefit "option_result list"
  | P_recommendation recommendation
  | P_savings "option_saving list"
  | P_projections "option_projection list"

text \<open>Lines 431 to 442: the conversions of the four financial inputs.\<close>

definition validate_inputs ::
  "(string \<Rightarrow> real option) \<Rightarrow> json \<Rightarrow> json \<Rightarrow> json \<Rightarrow> json \<Rightarrow> pyexc + real \<times> real \<times> real \<times> real" where
  "validate_inputs pf human_cost_min depreciation_years hours_per_week efficiency_gain =
     ebind (py_float pf depreciation_years) (\<lambda>t_float.
     ebind (py_float pf hours_per_week) (\<lambda>h_float.
     ebind (py_float pf efficiency_gain) (\<lambda>g.
     let g_float = g / 100
     in ebind (py_float pf human_cost_min) (\<lambda>oh_float.
        if oh_float \<le> 0 then Inl ValueError
        else Inr (t_float, h_float, g_float, oh_float)))))"

text \<open>Line 607: \<open>{r['robot_name']: r for r in available_robots}\<close>.\<close>

fun robot_data_map_from :: "(json \<times> json) list \<Rightarrow> json list \<Rightarrow> pyexc + (json \<times> json) list" where
  "robot_data_map_from m [] = Inr m"
| "robot_data_map_from m (r # rs) =
     ebind (py_subscript r ''robot_name'') (\<lambda>robot_name.
     ebind (pd_set m robot_name r) (\<lambda>m'.
       robot_data_map_from m' rs))"

text \<open>Line 613: \<open>set(assign['robot_name'] for assign in assignments)\<close>.\<close>

fun robot_name_set :: "json list \<Rightarrow> json list \<Rightarrow> pyexc + json list" where
  "robot_name_set acc [] = Inr acc"
| "robot_name_set acc (assign # rest) =
     ebind (py_subscript assign ''robot_name'') (\<lambda>robot_name.
       if hashable robot_name then robot_name_set (set_add acc robot_name) rest
       else Inl TypeError)"

text \<open>Lines 617 to 639: the comparison entry of one robot name.\<close>

definition missing_robot_entry :: "json \<Rightarrow> real \<Rightarrow> cost_entry" where
  "missing_robot_entry robot_name oh_float =
     \<lparr> ce_robot_name = robot_name, ce_robot_effective_cost_per_human_min = NA,
       ce_human_cost_per_min = oh_float, ce_is_cheaper = None \<rparr>"

definition compare_robot ::
  "(string \<Rightarrow> real option) \<Rightarrow> (json \<times> json) list \<Rightarrow> real \<Rightarrow> real \<Rightarrow> real \<Rightarrow> real \<Rightarrow> json
     \<Rightarrow> pyexc + cost_entry" where
  "compare_robot pf robot_data_map t_float h_float g_float oh_float robot_name =
     (case pd_get robot_data_map robot_name of
        None \<Rightarrow> Inr (missing_robot_entry robot_name oh_float)
      | Some robot_info \<Rightarrow>
          if py_truthy robot_info
          then (case robot_info of
                  JObj info \<Rightarrow>
                    ebind (calculate_effective_robot_cost pf info
                             (JNum t_float) (JNum h_float) (JNum g_float)) (\<lambda>effective_cost.
                      Inr \<lparr> ce_robot_name = robot_name,
                            ce_robot_effective_cost_per_human_min = effective_cost,
                            ce_human_cost_per_min = oh_float,
                            ce_is_cheaper =
                              (case effective_cost of
                                 Cost c \<Rightarrow> Some (c < oh_float) | NA \<Rightarrow> None) \<rparr>)
                | _ \<Rightarrow> Inl AttributeError)
          else Inr (missing_robot_entry robot_name oh_float))"

fun compare_robots ::
  "(string \<Rightarrow> real option) \<Rightarrow> (json \<times> json) list \<Rightarrow> real \<Rightarrow> real \<Rightarrow> real \<Rightarrow> real \<Rightarrow> json list
     \<Rightarrow> pyexc + cost_entry list" where
  "compare_robots pf robot_data_map t_float h_float g_float oh_float [] = Inr []"
| "compare_robots pf robot_data_map t_float h_float g_float oh_float (robot_name # rest) =
     ebind (compare_robot pf robot_data_map t_float h_float g_float oh_float robot_name) (\<lambda>entry.
     ebind (compare_robots pf robot_data_map t_float h_float g_float oh_float rest) (\<lambda>entries.
       Inr (entry # entries)))"

text \<open>Lines 610 to 646: the cost comparison of every automation option.\<close>

definition compare_option ::
  "(string \<Rightarrow> real option) \<Rightarrow> (json \<times> json) list \<Rightarrow> real \<Rightarrow> real \<Rightarrow> real \<Rightarrow> real \<Rightarrow> json
     \<Rightarrow> pyexc + option_result" where
  "compare_option pf robot_data_map t_float h_float g_float oh_float opt =
     ebind (obj_get_default opt ''option_id'' (JStr ''Unknown Option'')) (\<lambda>option_id.
     ebind (obj_get_default opt ''assignments'' (JArr [])) (\<lambda>assignments.
     ebind (py_iter assignments) (\<lambda>assigns.
     ebind (robot_name_set [] assigns) (\<lambda>unique_robots_in_option.
     ebind (compare_robots pf robot_data_map t_float h_float g_float oh_float
              unique_robots_in_option) (\<lambda>robot_cost_comparison.
       Inr \<lparr> or_option_id = option_id,
             or_robot_cost_comparison = robot_cost_comparison \<rparr>)))))"

fun compare_options ::
  "(string \<Rightarrow> real option) \<Rightarrow> (json \<times> json) list \<Rightarrow> real \<Rightarrow> real \<Rightarrow> real \<Rightarrow> real \<Rightarrow> json list
     \<Rightarrow> pyexc + option_result list" where
  "compare_options pf robot_data_map t_float h_float g_float oh_float [] = Inr []"
| "compare_options pf robot_data_map t_float h_float g_float oh_float (opt # rest) =
     ebind (compare_option pf robot_data_map t_float h_float g_float oh_float opt) (\<lambda>r.
     ebind (compare_options pf robot_data_map t_float h_float g_float oh_float rest) (\<lambda>rs.
       Inr (r # rs)))"

text \<open>Lines 604 to 687: everything after the three collaborators have replied.\<close>

definition analyse ::
  "(string \<Rightarrow> real option) \<Rightarrow> json list \<Rightarrow> json list \<Rightarrow> json list \<Rightarrow> real \<Rightarrow> real \<Rightarrow> real \<Rightarrow> real
     \<Rightarrow> pyexc + (string \<times> payload) list" where
  "analyse pf tasks available_robots automation_options t_float h_float g_float oh_float =
     ebind (robot_data_map_from [] available_robots) (\<lambda>robot_data_map.
     ebind (compare_options pf robot_data_map t_float h_float g_float oh_float
              automation_options) (\<lambda>cost_benefit_results_new.
     ebind (determine_recommendation_new cost_benefit_results_new oh_float automation_options
              tasks t_float h_float available_robots) (\<lambda>recommendation.
       Inr [(''process_tasks'', P_json tasks),
            (''available_robots'', P_json available_robots),
            (''automation_options'', P_json automation_options),
            (''cost_benefit_analysis'', P_cost_benefit cost_benefit_results_new),
            (''recommendation'', P_recommendation recommendation),
            (''task_savings_analysis'', P_savings (rec_option_savings recommendation)),
            (''annual_projections'', P_projections (rec_annual_projections recommendation))])))"

text \<open>
  The whole function. The first component lists the collaborators called so far; the
  second is the exception that leaves the function or the \<open>dict\<close> it returns.
\<close>

definition perform_full_analysis ::
  "(string \<Rightarrow> real option) \<Rightarrow> collaborators \<Rightarrow> json \<Rightarrow> json \<Rightarrow> json \<Rightarrow> json
     \<Rightarrow> call list \<times> (pyexc + (string \<times> payload) list)" where
  "perform_full_analysis pf env human_cost_min depreciation_years hours_per_week efficiency_gain =
     (case validate_inputs pf human_cost_min depreciation_years hours_per_week efficiency_gain of
        Inl e \<Rightarrow>
          (if e = ValueError \<or> e = TypeError
           then ([], Inr [(''error'', P_error Invalid_financial_input)])
           else ([], Inl e))
      | Inr (t_float, h_float, g_float, oh_float) \<Rightarrow>
          (case analyze_video_process env of
             JArr tasks \<Rightarrow>
               if tasks = []
               then ([Call_analyze_video_process],
                     Inr [(''error'', P_error Failed_video_analysis)])
               else
                 let available_robots = get_available_robots env
                 in if available_robots = []
                    then ([Call_analyze_video_process, Call_get_available_robots],
                          Inr [(''error'', P_error No_robot_definitions)])
                    else ([Call_analyze_video_process, Call_get_available_robots,
                           Call_generate_text_analysis],
                          analyse pf tasks available_robots (parsed_automation_options env)
                            t_float h_float g_float oh_float)
           | _ \<Rightarrow>
               ([Call_analyze_video_process],
                Inr [(''error'', P_error Failed_video_analysis)])))"

section \<open>The endpoint analyze_robotics\<close>

text \<open>
  The route of \<open>app/main.py\<close>, the only caller of \<open>perform_full_analysis\<close>. The request
  body is given decoded (\<open>None\<close> when \<open>request.get_json()\<close> raises). The response is the
  \<open>dict\<close> sent and its status code; the calls to the collaborators are returned with it.
\<close>

definition required_fields :: "string list" where
  "required_fields =
     [''video_uri'', ''human_cost_min'', ''depreciation_years'', ''hours_per_week'',
      ''efficiency_gain'']"

text \<open>Lines 58 to 68 of \<open>app/main.py\<close>: the body of the inner \<open>try\<close>.\<close>

definition convert_request_numbers ::
  "(string \<Rightarrow> real option) \<Rightarrow> json \<Rightarrow> json \<Rightarrow> json \<Rightarrow> json \<Rightarrow> pyexc + real \<times> real \<times> real \<times> real" where
  "convert_request_numbers pf human_cost_min depreciation_years hours_per_week efficiency_gain =
     ebind (py_float pf human_cost_min) (\<lambda>oh_float.
     ebind (py_float pf depreciation_years) (\<lambda>t_float.
     ebind (py_float pf hours_per_week) (\<lambda>h_float.
     ebind (py_float pf efficiency_gain) (\<lambda>g_float.
       if t_float \<le> 0 \<or> h_float \<le> 0 then Inl ValueError
       else if oh_float \<le> 0 then Inl ValueError
       else Inr (oh_float, t_float, h_float, g_float)))))"

text \<open>Lines 36 to 91: the body of the outer \<open>try\<close>.\<close>

definition endpoint_try_body ::
  "(string \<Rightarrow> real option) \<Rightarrow> collaborators \<Rightarrow> json option
     \<Rightarrow> call list \<times> (pyexc + (string \<times> payload) list \<times> nat)" where
  "endpoint_try_body pf env request_json =
     (case request_json of
        None \<Rightarrow> ([], Inl BadRequest)
      | Some data \<Rightarrow>
          if \<not> py_truthy data
          then ([], Inr ([(''error'', P_error Invalid_json_payload)], 400))
          else
            (case data of
               JObj d \<Rightarrow>
                 let video_uri = dict_get d ''video_uri'';
                     human_cost_min = dict_get d ''human_cost_min'';
                     depreciation_years = dict_get d ''depreciation_years'';
                     hours_per_week = dict_get d ''hours_per_week'';
                     efficiency_gain = dict_get d ''efficiency_gain'';
                     missing =
                       filter (\<lambda>field. map_of d field = None \<or> map_of d field = Some JNull)
                         required_fields
                 in if missing \<noteq> []
                    then ([], Inr ([(''error'', P_error (Missing_required_fields missing))], 400))
                    else if \<not> (case video_uri of JStr s \<Rightarrow> starts_with ''gs://'' s | _ \<Rightarrow> False)
                    then ([], Inr ([(''error'', P_error Invalid_video_uri)], 400))
                    else
                      (case convert_request_numbers pf human_cost_min depreciation_years
                              hours_per_week efficiency_gain of
                         Inl e \<Rightarrow>
                           (if e = ValueError \<or> e = TypeError
                            then ([], Inr ([(''error'', P_error Invalid_numerical_input)], 400))
                            else ([], Inl e))
                       | Inr (oh_float, t_float, h_float, g_float) \<Rightarrow>
                           (case perform_full_analysis pf env (JNum oh_float) (JNum t_float)
                                   (JNum h_float) (JNum g_float) of
                              (calls, Inl e) \<Rightarrow> (calls, Inl e)
                            | (calls, Inr results) \<Rightarrow>
                                (calls,
                                 Inr (results,
                                      if map_of results ''error'' \<noteq> None then 500 else 200))))
             | _ \<Rightarrow> ([], Inl AttributeError)))"

text \<open>The whole route: \<open>except Exception\<close> answers every exception with a generic error.\<close>

definition analyze_robotics ::
  "(string \<Rightarrow> real option) \<Rightarrow> collaborators \<Rightarrow> json option
     \<Rightarrow> call list \<times> (string \<times> payload) list \<times> nat" where
  "analyze_robotics pf env request_json =
     (case endpoint_try_body pf env request_json of
        (calls, Inl e) \<Rightarrow> (calls, [(''error'', P_error Unexpected_server_error)], 500)
      | (calls, Inr response) \<Rightarrow> (calls, response))"

section \<open>Notions used to state the properties\<close>





text \<open>
  What one robot contributes to an option's CAPEX, in the words of the specification: its
  purchase price, or the name-keyed default when the price is missing or not a number,
  times one plus its end effector percentage, 0.25 when that is absent.
\<close>

definition capex_contribution :: "(json \<times> (string \<times> json) list) list \<Rightarrow> json \<Rightarrow> real" where
  "capex_contribution robot_metadata robot_name =
     (let info = pd_get robot_metadata robot_name;
          purchase_price =
            (case info of None \<Rightarrow> None
             | Some i \<Rightarrow> (case map_of i ''purchase_price'' of None \<Rightarrow> None | Some v \<Rightarrow> as_number v));
          price =
            (case purchase_price of
               Some p \<Rightarrow> p
             | None \<Rightarrow> (case robot_name of JStr name \<Rightarrow> default_purchase_price name | _ \<Rightarrow> 0));
          pct =
            (case info of None \<Rightarrow> 1/4
             | Some i \<Rightarrow>
                 (case map_of i ''end_effector_cost_percent'' of
                    None \<Rightarrow> 1/4
                  | Some v \<Rightarrow> (case as_number v of Some e \<Rightarrow> e | None \<Rightarrow> 0)))
      in price * (1 + pct))"

text \<open>
  The invariant of the loop over the cost comparison results: the incumbent is the first
  evaluated option whose annual savings are positive and the highest so far.
\<close>

definition selection_inv :: "selection \<Rightarrow> bool" where
  "selection_inv st =
     (case highest_total_savings st of
        None \<Rightarrow>
          best_option_id st = JNull
          \<and> (\<forall>j < length (option_savings st). os_annual_savings (option_savings st ! j) \<le> 0)
      | Some h \<Rightarrow>
          0 < h
          \<and> (\<exists>i < length (option_savings st).
                os_annual_savings (option_savings st ! i) = h
              \<and> os_option_id (option_savings st ! i) = best_option_id st
              \<and> (\<forall>j < i. os_annual_savings (option_savings st ! j) < h)
              \<and> (\<forall>j < length (option_savings st).
                    os_annual_savings (option_savings st ! j) \<le> h)))"

section \<open>A grammar of float literals for concrete inputs\<close>

text \<open>
  The grammar in which no string is a float literal. It agrees with Python on the strings
  of the concrete inputs below, none of which \<open>float\<close> accepts.
\<close>

definition no_literal :: "string \<Rightarrow> real option" where
  "no_literal s = None"

section \<open>Properties of the robot cost model\<close>

lemma float_range_large: "(1000000000::real) < 2 ^ 1024 - 2 ^ 970"
  by simp

lemma large_number_to_float: "number_to_float (10 ^ 400) = Inl OverflowError"
  by (simp add: number_to_float_def too_large_for_float_def)

lemma small_number_to_float: "\<bar>r\<bar> \<le> 1000000000 \<Longrightarrow> number_to_float r = Inr r"
  using float_range_large by (simp add: number_to_float_def too_large_for_float_def)

lemmas eval_defs =
  determine_recommendation_new_def evaluate_option_def compute_cycle_metrics_def
  prepare_recommendation_def record_option_def initial_selection_def build_projection_def
  robot_total_cost_def default_purchase_price_def invalid_chart_value_def math_isnan_def
  math_isinf_def pd_set_def pd_lookup_def py_set_def py_eq_def dict_get_def py_int_def
  lower_def lower_char_def Let_def perform_full_analysis_def analyse_def validate_inputs_def
  compare_option_def compare_robot_def missing_robot_entry_def
  calculate_effective_robot_cost_def cost_try_body_def float_or_zero_def no_literal_def
  small_number_to_float analyze_robotics_def endpoint_try_body_def
  convert_request_numbers_def required_fields_def

lemma py_float_raises:
  "py_float pf v = Inl e \<Longrightarrow> e = ValueError \<or> e = TypeError \<or> e = OverflowError"
  by (cases v) (auto simp: number_to_float_def split: option.splits if_splits)

lemma ebind_Inr [simp]: "ebind (Inr x) f = f x"
  by (simp add: ebind_def)

lemma ebind_Inl [simp]: "ebind (Inl e) f = Inl e"
  by (simp add: ebind_def)

lemma float_or_zero_converts:
  "py_float pf v \<noteq> Inl OverflowError \<Longrightarrow> \<exists>c. float_or_zero pf v = Inr c"
  by (cases "py_float pf v") (auto simp: float_or_zero_def dest: py_float_raises)



text \<open>
  C2, as amended. When no conversion of the robot's three financial fields or of \<open>T\<close>,
  \<open>H\<close>, \<open>G\<close> overflows (none of them is an \<open>int\<close> beyond the range of floats), the
  function does not raise, and it returns "N/A" exactly when the operating cost is
  absent (\<open>None\<close>), or the conversion of the operating cost, of \<open>T\<close>, of \<open>H\<close> or of \<open>G\<close>
  fails, or \<open>T \<le> 0\<close>, or \<open>H \<le> 0\<close>, or \<open>1 + G \<le> 0\<close>; in every other case it returns a
  number. A purchase price or end effector percentage that fails to convert counts as
  0 and does not make the result "N/A".
\<close>

theorem cost_not_computable_iff:
  assumes "\<forall>v \<in> {dict_get robot ''purchase_price'', dict_get robot ''end_effector_cost_percent'',
                  dict_get robot ''op_cost_per_min'', Tj, Hj, Gj}.
             py_float pf v \<noteq> Inl OverflowError"
  shows "(\<exists>c. calculate_effective_robot_cost pf robot Tj Hj Gj = Inr c) \<and>
   (calculate_effective_robot_cost pf robot Tj Hj Gj = Inr NA \<longleftrightarrow>
      dict_get robot ''op_cost_per_min'' = JNull
    \<or> (\<exists>e. py_float pf (dict_get robot ''op_cost_per_min'') = Inl e)
    \<or> (\<exists>e. py_float pf Tj = Inl e) \<or> (\<exists>e. py_float pf Hj = Inl e)
    \<or> (\<exists>e. py_float pf Gj = Inl e)
    \<or> (\<exists>T. py_float pf Tj = Inr T \<and> T \<le> 0)
    \<or> (\<exists>H. py_float pf Hj = Inr H \<and> H \<le> 0)
    \<or> (\<exists>G. py_float pf Gj = Inr G \<and> 1 + G \<le> 0))"
proof (cases "dict_get robot ''op_cost_per_min'' = JNull")
  case True
  then show ?thesis
    by (simp add: calculate_effective_robot_cost_def cost_try_body_def Let_def)
next
  case nn: False
  from assms float_or_zero_converts obtain C E where
    C: "float_or_zero pf (dict_get robot ''purchase_price'') = Inr C" and
    E: "float_or_zero pf (dict_get robot ''end_effector_cost_percent'') = Inr E"
    by (metis insertCI)
  have caught: "e = ValueError \<or> e = TypeError"
    if "py_float pf v = Inl e"
      and "v \<in> {dict_get robot ''op_cost_per_min'', Tj, Hj, Gj}" for v e
    using that assms py_float_raises [of pf v e] by auto
  show ?thesis
  proof (cases "py_float pf Tj")
    case (Inl e)
    with nn C E caught [OF Inl] show ?thesis
      by (auto simp: calculate_effective_robot_cost_def cost_try_body_def Let_def)
  next
    case T: (Inr T)
    show ?thesis
    proof (cases "py_float pf Hj")
      case (Inl e)
      with nn C E T caught [OF Inl] show ?thesis
        by (auto simp: calculate_effective_robot_cost_def cost_try_body_def Let_def)
    next
      case H: (Inr H)
      show ?thesis
      proof (cases "py_float pf Gj")
        case (Inl e)
        with nn C E T H caught [OF Inl] show ?thesis
          by (auto simp: calculate_effective_robot_cost_def cost_try_body_def Let_def)
      next
        case G: (Inr G)
        show ?thesis
        proof (cases "py_float pf (dict_get robot ''op_cost_per_min'')")
          case (Inl e)
          with nn C E T H G caught [OF Inl] show ?thesis
            by (auto simp: calculate_effective_robot_cost_def cost_try_body_def Let_def)
        next
          case (Inr Oc)
          with nn C E T H G show ?thesis
            by (auto simp: calculate_effective_robot_cost_def cost_try_body_def Let_def)
        qed
      qed
    qed
  qed
qed

theorem cost_not_computable_iff_witness:
  "calculate_effective_robot_cost no_literal [(''op_cost_per_min'', JNum 1)]
      (JNum 0) (JNum 40) (JNum 0) = Inr NA
   \<and> calculate_effective_robot_cost no_literal [(''purchase_price'', JNum 100)]
      (JNum 5) (JNum 40) (JNum 0) = Inr NA"
  using cost_not_computable_iff [of "[(''op_cost_per_min'', JNum 1)]"
      "JNum 0" "JNum 40" "JNum 0" no_literal]
    cost_not_computable_iff [of "[(''purchase_price'', JNum 100)]"
      "JNum 5" "JNum 40" "JNum 0" no_literal]
  by (simp add: dict_get_def small_number_to_float)

text \<open>
  C2 as stated fails: the purchase price \<open>"n/a"\<close> does not convert, and the result is
  the number 0.1, not "N/A".
\<close>

theorem cost_conversion_failure_counterexample:
  "py_float no_literal
     (dict_get [(''purchase_price'', JStr ''n/a''), (''op_cost_per_min'', JNum (1/10))]
        ''purchase_price'') = Inl ValueError
   \<and> calculate_effective_robot_cost no_literal
       [(''purchase_price'', JStr ''n/a''), (''op_cost_per_min'', JNum (1/10))]
       (JNum 5) (JNum 40) (JNum 0) = Inr (Cost (1/10))"
  by (simp add: calculate_effective_robot_cost_def cost_try_body_def Let_def dict_get_def
      float_or_zero_def no_literal_def small_number_to_float)

text \<open>
  An \<open>int\<close> beyond the range of floats in a field makes \<open>float\<close> raise \<open>OverflowError\<close>,
  which neither \<open>except\<close> clause names: the exception leaves the function.
\<close>

lemma overflow_leaves_cost_function:
  "calculate_effective_robot_cost no_literal
     [(''purchase_price'', JNum (10 ^ 400)), (''op_cost_per_min'', JNum (1/10))]
     (JNum 5) (JNum 40) (JNum 0) = Inl OverflowError"
  by (simp add: calculate_effective_robot_cost_def cost_try_body_def Let_def dict_get_def
      float_or_zero_def number_to_float_def too_large_for_float_def)

section \<open>Properties of the cycle metrics\<close>

lemma human_tasks_of_dicts:
  "human_tasks_of (map JObj ts)
     = Inr (map JObj (filter (\<lambda>t. dict_get t ''actor_type'' = JStr ''human'') ts))"
  by (induction ts) simp_all

text \<open>
  C6. For a list of task records and any \<open>hours_per_week\<close>: \<open>cycle_time_mins\<close> is the
  number of tasks whose \<open>actor_type\<close> is \<open>human\<close>; \<open>cycles_per_hour\<close> is 60 divided by it
  when it is positive and 1 when there is no human task; \<open>cycles_per_year\<close> is
  \<open>cycles_per_hour * hours_per_week * 52\<close>. No exception is raised.
\<close>

theorem cycle_metrics_correct:
  "process_metrics (map JObj ts) hours_per_week =
     Inr \<lparr> cycle_time_mins =
             real (length (filter (\<lambda>t. dict_get t ''actor_type'' = JStr ''human'') ts)),
           cycles_per_hour =
             (if 0 < length (filter (\<lambda>t. dict_get t ''actor_type'' = JStr ''human'') ts)
              then 60 / real (length (filter (\<lambda>t. dict_get t ''actor_type'' = JStr ''human'') ts))
              else 1),
           cycles_per_year =
             (if 0 < length (filter (\<lambda>t. dict_get t ''actor_type'' = JStr ''human'') ts)
              then 60 / real (length (filter (\<lambda>t. dict_get t ''actor_type'' = JStr ''human'') ts))
              else 1) * hours_per_week * 52 \<rparr>"
  by (simp add: process_metrics_def human_tasks_of_dicts compute_cycle_metrics_def Let_def)

theorem cycle_metrics_correct_witness:
  "process_metrics
     [JObj [(''id'', JNum 1), (''actor_type'', JStr ''human'')],
      JObj [(''id'', JNum 2), (''actor_type'', JStr ''machine'')],
      JObj [(''id'', JNum 3), (''actor_type'', JStr ''human'')],
      JObj [(''id'', JNum 4), (''actor_type'', JStr ''human'')]] 40
     = Inr \<lparr> cycle_time_mins = 3, cycles_per_hour = 20, cycles_per_year = 41600 \<rparr>
   \<and> process_metrics [JObj [(''id'', JNum 1), (''actor_type'', JStr ''machine'')]] 40
     = Inr \<lparr> cycle_time_mins = 0, cycles_per_hour = 1, cycles_per_year = 2080 \<rparr>"
  using cycle_metrics_correct [of
      "[[(''id'', JNum 1), (''actor_type'', JStr ''human'')],
        [(''id'', JNum 2), (''actor_type'', JStr ''machine'')],
        [(''id'', JNum 3), (''actor_type'', JStr ''human'')],
        [(''id'', JNum 4), (''actor_type'', JStr ''human'')]]" 40]
    cycle_metrics_correct [of "[[(''id'', JNum 1), (''actor_type'', JStr ''machine'')]]" 40]
  by (simp add: dict_get_def)

section \<open>Properties of the orchestration\<close>

lemma convert_request_numbers_fails:
  assumes "(\<exists>e. py_float pf depreciation_years = Inl e)
         \<or> (\<exists>e. py_float pf hours_per_week = Inl e)
         \<or> (\<exists>e. py_float pf efficiency_gain = Inl e)
         \<or> (\<exists>e. py_float pf human_cost_min = Inl e)
         \<or> (\<exists>t. py_float pf depreciation_years = Inr t \<and> t \<le> 0)
         \<or> (\<exists>h. py_float pf hours_per_week = Inr h \<and> h \<le> 0)
         \<or> (\<exists>oh. py_float pf human_cost_min = Inr oh \<and> oh \<le> 0)"
  shows "\<exists>e. convert_request_numbers pf human_cost_min depreciation_years hours_per_week
           efficiency_gain = Inl e"
  using assms
  by (cases "py_float pf depreciation_years"; cases "py_float pf hours_per_week";
      cases "py_float pf efficiency_gain"; cases "py_float pf human_cost_min")
     (auto simp: convert_request_numbers_def)

text \<open>
  C8. For every request whose \<open>depreciation_years\<close>, \<open>hours_per_week\<close> or
  \<open>human_cost_min\<close> is not positive, or in which one of the four financial inputs fails
  numeric conversion, the analysis is aborted: the answer is an error object and no
  collaborator has been called.
\<close>

theorem invalid_request_aborts_before_collaborators:
  assumes "(\<exists>e. py_float pf (dict_get d ''depreciation_years'') = Inl e)
         \<or> (\<exists>e. py_float pf (dict_get d ''hours_per_week'') = Inl e)
         \<or> (\<exists>e. py_float pf (dict_get d ''efficiency_gain'') = Inl e)
         \<or> (\<exists>e. py_float pf (dict_get d ''human_cost_min'') = Inl e)
         \<or> (\<exists>t. py_float pf (dict_get d ''depreciation_years'') = Inr t \<and> t \<le> 0)
         \<or> (\<exists>h. py_float pf (dict_get d ''hours_per_week'') = Inr h \<and> h \<le> 0)
         \<or> (\<exists>oh. py_float pf (dict_get d ''human_cost_min'') = Inr oh \<and> oh \<le> 0)"
  shows "\<exists>msg status.
           analyze_robotics pf env (Some (JObj d)) = ([], [(''error'', P_error msg)], status)"
proof -
  from convert_request_numbers_fails [OF assms] obtain e where
    "convert_request_numbers pf (dict_get d ''human_cost_min'')
       (dict_get d ''depreciation_years'') (dict_get d ''hours_per_week'')
       (dict_get d ''efficiency_gain'') = Inl e"
    by blast
  then show ?thesis
    by (simp add: analyze_robotics_def endpoint_try_body_def Let_def)
qed

theorem invalid_request_aborts_before_collaborators_witness:
  "analyze_robotics no_literal
     \<lparr> analyze_video_process = JArr [JObj [(''id'', JNum 1), (''actor_type'', JStr ''human'')]],
       get_available_robots = [JObj [(''robot_name'', JStr ''digit'')]],
       parsed_automation_options = [] \<rparr>
     (Some (JObj [(''video_uri'', JStr ''gs://bucket/video.mp4''), (''human_cost_min'', JNum 1),
                  (''depreciation_years'', JNum 0), (''hours_per_week'', JNum 40),
                  (''efficiency_gain'', JNum 20)]))
   = ([], [(''error'', P_error Invalid_numerical_input)], 400)
   \<and> analyze_robotics no_literal
     \<lparr> analyze_video_process = JArr [JObj [(''id'', JNum 1), (''actor_type'', JStr ''human'')]],
       get_available_robots = [JObj [(''robot_name'', JStr ''digit'')]],
       parsed_automation_options = [] \<rparr>
     (Some (JObj [(''video_uri'', JStr ''gs://bucket/video.mp4''),
                  (''human_cost_min'', JNum (10 ^ 400)),
                  (''depreciation_years'', JNum 5), (''hours_per_week'', JNum 40),
                  (''efficiency_gain'', JNum 20)]))
   = ([], [(''error'', P_error Unexpected_server_error)], 500)"
  using invalid_request_aborts_before_collaborators [of no_literal
      "[(''video_uri'', JStr ''gs://bucket/video.mp4''), (''human_cost_min'', JNum 1),
        (''depreciation_years'', JNum 0), (''hours_per_week'', JNum 40),
        (''efficiency_gain'', JNum 20)]"
      "\<lparr> analyze_video_process = JArr [JObj [(''id'', JNum 1), (''actor_type'', JStr ''human'')]],
         get_available_robots = [JObj [(''robot_name'', JStr ''digit'')]],
         parsed_automation_options = [] \<rparr>"]
    invalid_request_aborts_before_collaborators [of no_literal
      "[(''video_uri'', JStr ''gs://bucket/video.mp4''), (''human_cost_min'', JNum (10 ^ 400)),
        (''depreciation_years'', JNum 5), (''hours_per_week'', JNum 40),
        (''efficiency_gain'', JNum 20)]"
      "\<lparr> analyze_video_process = JArr [JObj [(''id'', JNum 1), (''actor_type'', JStr ''human'')]],
         get_available_robots = [JObj [(''robot_name'', JStr ''digit'')]],
         parsed_automation_options = [] \<rparr>"]
  by (simp add: eval_defs number_to_float_def too_large_for_float_def)

text \<open>A request that passes the validation is analysed: the three collaborators are called.\<close>

lemma valid_request_is_analysed:
  "analyze_robotics no_literal
     \<lparr> analyze_video_process = JArr [JObj [(''id'', JNum 1), (''actor_type'', JStr ''human'')]],
       get_available_robots = [JObj [(''robot_name'', JStr ''digit'')]],
       parsed_automation_options = [] \<rparr>
     (Some (JObj [(''video_uri'', JStr ''gs://bucket/video.mp4''), (''human_cost_min'', JNum 1),
                  (''depreciation_years'', JNum 5), (''hours_per_week'', JNum 40),
                  (''efficiency_gain'', JNum 20)]))
   = ([Call_analyze_video_process, Call_get_available_robots, Call_generate_text_analysis],
      [(''process_tasks'', P_json [JObj [(''id'', JNum 1), (''actor_type'', JStr ''human'')]]),
       (''available_robots'', P_json [JObj [(''robot_name'', JStr ''digit'')]]),
       (''automation_options'', P_json []),
       (''cost_benefit_analysis'', P_cost_benefit []),
       (''recommendation'', P_recommendation Rec_no_data),
       (''task_savings_analysis'', P_savings []),
       (''annual_projections'', P_projections [])], 200)"
  by (simp add: eval_defs)

text \<open>
  \<open>perform_full_analysis\<close> on its own: a failed conversion or a human cost per minute
  that is not positive ends the run before any collaborator is called, with the error
  result or, for an \<open>int\<close> beyond the range of floats, with \<open>OverflowError\<close>.
\<close>

lemma perform_validation_failure:
  assumes "(\<exists>e. py_float pf depreciation_years = Inl e)
         \<or> (\<exists>e. py_float pf hours_per_week = Inl e)
         \<or> (\<exists>e. py_float pf efficiency_gain = Inl e)
         \<or> (\<exists>e. py_float pf human_cost_min = Inl e)
         \<or> (\<exists>oh. py_float pf human_cost_min = Inr oh \<and> oh \<le> 0)"
  shows "perform_full_analysis pf env human_cost_min depreciation_years hours_per_week
           efficiency_gain = ([], Inr [(''error'', P_error Invalid_financial_input)])
       \<or> perform_full_analysis pf env human_cost_min depreciation_years hours_per_week
           efficiency_gain = ([], Inl OverflowError)"
proof -
  have "\<exists>e. validate_inputs pf human_cost_min depreciation_years hours_per_week efficiency_gain
          = Inl e \<and> (e = ValueError \<or> e = TypeError \<or> e = OverflowError)"
    using assms
    by (cases "py_float pf depreciation_years"; cases "py_float pf hours_per_week";
        cases "py_float pf efficiency_gain"; cases "py_float pf human_cost_min")
       (auto simp: validate_inputs_def Let_def dest: py_float_raises)
  then show ?thesis
    by (auto simp: perform_full_analysis_def)
qed

text \<open>
  The positivity of \<open>depreciation_years\<close> and \<open>hours_per_week\<close> is tested by the endpoint
  only: called directly with \<open>depreciation_years = 0\<close>, \<open>perform_full_analysis\<close> calls
  the three collaborators and returns a complete result.
\<close>

lemma perform_accepts_nonpositive_years:
  "perform_full_analysis no_literal
     \<lparr> analyze_video_process = JArr [JObj [(''id'', JNum 1), (''actor_type'', JStr ''human'')]],
       get_available_robots = [JObj [(''robot_name'', JStr ''digit'')]],
       parsed_automation_options = [] \<rparr>
     (JNum 1) (JNum 0) (JNum 40) (JNum 20)
   = ([Call_analyze_video_process, Call_get_available_robots, Call_generate_text_analysis],
      Inr [(''process_tasks'', P_json [JObj [(''id'', JNum 1), (''actor_type'', JStr ''human'')]]),
           (''available_robots'', P_json [JObj [(''robot_name'', JStr ''digit'')]]),
           (''automation_options'', P_json []),
           (''cost_benefit_analysis'', P_cost_benefit []),
           (''recommendation'', P_recommendation Rec_no_data),
           (''task_savings_analysis'', P_savings []),
           (''annual_projections'', P_projections [])])"
  by (simp add: eval_defs)

text \<open>
  C9, as amended. Whatever the inputs and the collaborators' replies, the function
  either raises, or returns a \<open>dict\<close> with the single key \<open>error\<close>, or returns a \<open>dict\<close>
  with exactly the seven payload keys and no \<open>error\<close> key.
\<close>

theorem analysis_result_shape:
  "(case snd (perform_full_analysis pf env human_cost_min depreciation_years hours_per_week
                efficiency_gain) of
      Inl e \<Rightarrow> True
    | Inr res \<Rightarrow>
        map fst res = [''error'']
      \<or> map fst res = [''process_tasks'', ''available_robots'', ''automation_options'',
           ''cost_benefit_analysis'', ''recommendation'', ''task_savings_analysis'',
           ''annual_projections''])"
  by (auto simp: perform_full_analysis_def analyse_def ebind_def Let_def
      split: sum.splits json.splits prod.splits if_splits)

text \<open>
  C9 as stated fails: an automation option whose assignment has no \<open>robot_name\<close> makes
  line 613 raise \<open>KeyError\<close>, which nothing in the function catches.
\<close>

theorem malformed_assignment_counterexample:
  "snd (perform_full_analysis no_literal
     \<lparr> analyze_video_process = JArr [JObj [(''id'', JNum 1), (''actor_type'', JStr ''human'')]],
       get_available_robots = [JObj [(''robot_name'', JStr ''digit'')]],
       parsed_automation_options =
         [JObj [(''option_id'', JStr ''A''),
                (''assignments'', JArr [JObj [(''task_id'', JNum 1)]])]] \<rparr>
     (JNum 1) (JNum 5) (JNum 40) (JNum 20))
   = Inl KeyError"
  by (simp add: eval_defs)

section \<open>Properties of the recommendation\<close>

text \<open>
  C3 at a failing input. The only option has the empty string as its \<open>option_id\<close> and
  saves 62400 a year; the loop makes it the incumbent, but the final test
  \<open>if best_option_id and highest_total_savings > 0\<close> takes the empty string for "no
  option", and the recommendation is "No_Automation".
\<close>

theorem empty_option_id_not_recommended:
  "determine_recommendation_new
     [\<lparr> or_option_id = JStr [],
        or_robot_cost_comparison =
          [\<lparr> ce_robot_name = JStr ''digit'', ce_robot_effective_cost_per_human_min = Cost (1/2),
             ce_human_cost_per_min = 1, ce_is_cheaper = Some True \<rparr>] \<rparr>]
     1
     [JObj [(''option_id'', JStr []),
            (''assignments'', JArr [JObj [(''task_id'', JNum 1), (''robot_name'', JStr ''digit'')]])]]
     [JObj [(''id'', JNum 1), (''actor_type'', JStr ''human'')]]
     1 40
     [JObj [(''robot_name'', JStr ''digit''), (''purchase_price'', JNum 1000)]]
   = Inr (Rec_full (JStr ''No_Automation'') Not_cost_effective
       [\<lparr> os_option_id = JStr [], os_num_automated_tasks = 1, os_num_tasks_with_savings = 1,
          os_savings_per_cycle = 1/2, os_annual_savings = 62400, os_percent_savings = 50 \<rparr>]
       [\<lparr> op_option_id = JStr [], op_baseline_cost_per_cycle = 1, op_robot_cost_per_cycle = 1/2,
          op_annual_baseline_cost = 124800, op_annual_cost_with_automation = 62400,
          op_robot_capex = 1250, op_cumulative_costs_by_year = [1250, 63650],
          op_baseline_cumulative_costs_by_year = [0, 124800] \<rparr>])"
  by (simp add: eval_defs)

lemma record_option_savings [simp]:
  "option_savings (record_option st sv pj) = option_savings st @ [sv]"
  by (simp add: record_option_def Let_def)

lemma record_option_inv:
  assumes "selection_inv st"
  shows "selection_inv (record_option st sv pj)"
proof (cases "highest_total_savings st")
  case None
  with assms have a: "best_option_id st = JNull"
    "\<forall>j < length (option_savings st). os_annual_savings (option_savings st ! j) \<le> 0"
    by (auto simp: selection_inv_def)
  show ?thesis
  proof (cases "0 < os_annual_savings sv")
    case True
    have "\<forall>j < length (option_savings st). os_annual_savings (option_savings st ! j) < os_annual_savings sv"
      using a(2) True by fastforce
    then show ?thesis
      using None True
      by (auto simp: selection_inv_def record_option_def Let_def nth_append less_Suc_eq
          intro!: exI [of _ "length (option_savings st)"] dest: less_imp_le)
  next
    case False
    then show ?thesis
      using None a
      by (auto simp: selection_inv_def record_option_def Let_def nth_append less_Suc_eq)
  qed
next
  case (Some h)
  with assms obtain i where i: "0 < h" "i < length (option_savings st)"
    "os_annual_savings (option_savings st ! i) = h"
    "os_option_id (option_savings st ! i) = best_option_id st"
    "\<forall>j < i. os_annual_savings (option_savings st ! j) < h"
    "\<forall>j < length (option_savings st). os_annual_savings (option_savings st ! j) \<le> h"
    by (auto simp: selection_inv_def)
  show ?thesis
  proof (cases "h < os_annual_savings sv")
    case True
    have "\<forall>j < length (option_savings st). os_annual_savings (option_savings st ! j) < os_annual_savings sv"
      using i(6) True by fastforce
    then show ?thesis
      using Some True i(1)
      by (auto simp: selection_inv_def record_option_def Let_def nth_append less_Suc_eq
          intro!: exI [of _ "length (option_savings st)"] dest: less_imp_le)
  next
    case False
    have "selection_inv (st \<lparr> annual_projections := annual_projections st @ [pj],
                              option_savings := option_savings st @ [sv] \<rparr>)"
      unfolding selection_inv_def using Some i False
      by (auto simp: nth_append less_Suc_eq intro!: exI [of _ i])
    then show ?thesis
      using Some False by (simp add: record_option_def Let_def)
  qed
qed

lemma options_loop_inv:
  "options_loop hc opts hts py T meta st rs = Inr st' \<Longrightarrow> selection_inv st \<Longrightarrow> selection_inv st'"
proof (induction rs arbitrary: st)
  case Nil
  then show ?case by simp
next
  case (Cons r rs)
  show ?case
  proof (cases "evaluate_option hc opts hts py T meta r")
    case (Inl e)
    with Cons.prems show ?thesis by simp
  next
    case (Inr ev)
    show ?thesis
    proof (cases ev)
      case None
      with Inr Cons show ?thesis by simp
    next
      case (Some p)
      obtain sv pj where p: "p = (sv, pj)" by (cases p)
      from Inr Some p Cons.prems(1)
      have "options_loop hc opts hts py T meta (record_option st sv pj) rs = Inr st'"
        by simp
      then show ?thesis
        using Cons.IH record_option_inv [OF Cons.prems(2)] by blast
    qed
  qed
qed

lemma initial_selection_inv: "selection_inv initial_selection"
  by (simp add: selection_inv_def initial_selection_def)

lemma determine_recommendation_full:
  assumes "determine_recommendation_new cbr hc opts tasks T H robots = Inr r"
    and "r \<noteq> Rec_no_data"
  shows "\<exists>st. selection_inv st \<and> r = prepare_recommendation st"
proof -
  from assms obtain hts meta st where
    "options_loop hc opts hts (cycles_per_year (compute_cycle_metrics (length hts) H)) T meta
       initial_selection cbr = Inr st" "r = prepare_recommendation st"
    by (auto simp: determine_recommendation_new_def Let_def ebind_def
        split: sum.splits if_splits)
  then show ?thesis
    using options_loop_inv initial_selection_inv by blast
qed

lemma prepare_savings [simp]:
  "rec_option_savings (prepare_recommendation st) = option_savings st"
  by (simp add: prepare_recommendation_def)


lemma never_recommends_without_savings:
  assumes "determine_recommendation_new cbr hc opts tasks T H robots = Inr r"
    and "r \<noteq> Rec_no_data"
  shows "recommended_option_id r = JStr ''No_Automation''
       \<or> (\<exists>i < length (rec_option_savings r).
            recommended_option_id r = os_option_id (rec_option_savings r ! i)
          \<and> 0 < os_annual_savings (rec_option_savings r ! i)
          \<and> (\<forall>j < length (rec_option_savings r).
                os_annual_savings (rec_option_savings r ! j)
                  \<le> os_annual_savings (rec_option_savings r ! i)))"
proof -
  from assms obtain st where st: "selection_inv st" "r = prepare_recommendation st"
    using determine_recommendation_full by blast
  show ?thesis
  proof (cases "highest_total_savings st")
    case None
    with st(2) show ?thesis by (simp add: prepare_recommendation_def)
  next
    case (Some h)
    with st show ?thesis
      by (auto simp: selection_inv_def prepare_recommendation_def)
  qed
qed

lemma no_profitable_option_no_automation:
  assumes "determine_recommendation_new cbr hc opts tasks T H robots = Inr r"
    and "r \<noteq> Rec_no_data"
    and "\<forall>j < length (rec_option_savings r). os_annual_savings (rec_option_savings r ! j) \<le> 0"
  shows "recommended_option_id r = JStr ''No_Automation''"
proof -
  from assms obtain st where st: "selection_inv st" "r = prepare_recommendation st"
    using determine_recommendation_full by blast
  show ?thesis
  proof (cases "highest_total_savings st")
    case None
    with st(2) show ?thesis by (simp add: prepare_recommendation_def)
  next
    case (Some h)
    with st(1) obtain k where "0 < h" "k < length (option_savings st)"
      "os_annual_savings (option_savings st ! k) = h"
      by (auto simp: selection_inv_def)
    with assms(3) st(2) show ?thesis by fastforce
  qed
qed

lemma no_data_recommendation:
  assumes "human_tasks_of tasks = Inr hts" and "cbr = [] \<or> hc \<le> 0"
  shows "determine_recommendation_new cbr hc opts tasks T H robots = Inr Rec_no_data"
  using assms by (auto simp: determine_recommendation_new_def Let_def)

section \<open>Properties of the savings projection\<close>

lemma ebind_eq_Inr: "(ebind m f = Inr y) = (\<exists>x. m = Inr x \<and> f x = Inr y)"
  by (cases m) simp_all

lemma py_eq_refl [simp]: "py_eq a a"
  by (simp add: py_eq_def)

lemma if_Inr_None: "((if c then Inr None else X) = Inr (Some p)) = (\<not> c \<and> X = Inr (Some p))"
  by simp

lemma evaluate_option_SomeD:
  assumes "evaluate_option hc opts hts py T meta r = Inr (Some (sv, pj))"
  shows "\<exists>opt assignments n assigns t2r rcm wa ho unique capex k.
      find_option opts (or_option_id r) = Inr (Some opt)
    \<and> obj_get_default opt ''assignments'' (JArr []) = Inr assignments
    \<and> py_len assignments = Inr n
    \<and> py_iter assignments = Inr assigns
    \<and> task_to_robot_map_from [] assigns = Inr t2r
    \<and> robot_cost_map_from [] (or_robot_cost_comparison r) = Inr rcm
    \<and> cycle_costs hc t2r rcm hts (0, 0) = Inr (wa, ho)
    \<and> py_set (map snd t2r) = Inr unique
    \<and> option_capex meta unique 0 = Inr capex
    \<and> count_tasks_with_savings hc rcm t2r 0 = Inr k
    \<and> os_option_id sv = or_option_id r
    \<and> os_num_automated_tasks sv = n
    \<and> os_num_tasks_with_savings sv = k
    \<and> os_savings_per_cycle sv = ho - wa
    \<and> os_annual_savings sv = (ho - wa) * py
    \<and> pj = build_projection (or_option_id r) ho wa (ho * py) (wa * py) capex T"
  using assms unfolding evaluate_option_def Let_def
  by (auto simp: ebind_eq_Inr if_Inr_None split: option.splits prod.splits)

lemma pd_get_update:
  "pd_get (pd_update d k v) n = (if py_eq k n then Some v else pd_get d n)"
  by (induction d) (auto simp: py_eq_def)

lemma robot_cost_map_numeric:
  "robot_cost_map_from m es = Inr m' \<Longrightarrow> pd_get m' n = Some c \<Longrightarrow>
     pd_get m n = Some c
   \<or> (\<exists>e \<in> set es. py_eq (ce_robot_name e) n
          \<and> ce_robot_effective_cost_per_human_min e = Cost c)"
proof (induction es arbitrary: m)
  case Nil
  then show ?case by simp
next
  case (Cons e es)
  show ?case
  proof (cases "ce_robot_effective_cost_per_human_min e")
    case NA
    with Cons.prems have "robot_cost_map_from m es = Inr m'" by simp
    from Cons.IH [OF this Cons.prems(2)] show ?thesis by auto
  next
    case (Cost x)
    with Cons.prems(1) have
      rest: "robot_cost_map_from (pd_update m (ce_robot_name e) x) es = Inr m'"
      by (auto simp: ebind_eq_Inr pd_set_def split: if_splits)
    from Cons.IH [OF rest Cons.prems(2)] Cost show ?thesis
      by (auto simp: pd_get_update split: if_splits)
  qed
qed

lemma task_to_robot_map_assigned:
  "task_to_robot_map_from m assigns = Inr m' \<Longrightarrow> pd_get m' task_id = Some robot_name \<Longrightarrow>
     pd_get m task_id = Some robot_name
   \<or> (\<exists>a \<in> set assigns. \<exists>k. py_subscript a ''task_id'' = Inr k \<and> py_eq k task_id
          \<and> py_subscript a ''robot_name'' = Inr robot_name)"
proof (induction assigns arbitrary: m)
  case Nil
  then show ?case by simp
next
  case (Cons a assigns)
  from Cons.prems(1) obtain k v where
    k: "py_subscript a ''task_id'' = Inr k" and v: "py_subscript a ''robot_name'' = Inr v" and
    rest: "task_to_robot_map_from (pd_update m k v) assigns = Inr m'"
    by (auto simp: ebind_eq_Inr pd_set_def split: if_splits)
  from Cons.IH [OF rest Cons.prems(2)] k v show ?case
    by (auto simp: pd_get_update split: if_splits)
qed

lemma obj_get_InrD: "obj_get x k = Inr v \<Longrightarrow> \<exists>d. x = JObj d \<and> v = dict_get d k"
  by (cases x) auto

lemma find_option_SomeD:
  "find_option opts oid = Inr (Some opt) \<Longrightarrow>
     \<exists>pre d post. opts = pre @ JObj d # post \<and> opt = JObj d
       \<and> py_eq (dict_get d ''option_id'') oid
       \<and> (\<forall>q \<in> set pre. \<exists>j. obj_get q ''option_id'' = Inr j \<and> \<not> py_eq j oid)"
proof (induction opts)
  case Nil
  then show ?case by simp
next
  case (Cons q opts)
  from Cons.prems obtain i where i: "obj_get q ''option_id'' = Inr i"
    by (auto simp: ebind_eq_Inr)
  from obj_get_InrD [OF i] obtain d0 where d0: "q = JObj d0" "i = dict_get d0 ''option_id''"
    by blast
  show ?case
  proof (cases "py_eq i oid")
    case True
    with Cons.prems i have "opt = q" by simp
    with True d0 have "q # opts = [] @ JObj d0 # opts \<and> opt = JObj d0
       \<and> py_eq (dict_get d0 ''option_id'') oid
       \<and> (\<forall>q \<in> set []. \<exists>j. obj_get q ''option_id'' = Inr j \<and> \<not> py_eq j oid)"
      by simp
    then show ?thesis by blast
  next
    case False
    with Cons.prems i have "find_option opts oid = Inr (Some opt)" by simp
    from Cons.IH [OF this] obtain pre d post where
      p: "opts = pre @ JObj d # post" "opt = JObj d" "py_eq (dict_get d ''option_id'') oid"
        "\<forall>q \<in> set pre. \<exists>j. obj_get q ''option_id'' = Inr j \<and> \<not> py_eq j oid"
      by blast
    from p i False have "q # opts = (q # pre) @ JObj d # post \<and> opt = JObj d
       \<and> py_eq (dict_get d ''option_id'') oid
       \<and> (\<forall>q \<in> set (q # pre). \<exists>j. obj_get q ''option_id'' = Inr j \<and> \<not> py_eq j oid)"
      by simp
    then show ?thesis by blast
  qed
qed






text \<open>
  Every pair of a savings summary and a projection in the returned recommendation is
  the evaluation of one entry of \<open>cost_benefit_results\<close>.
\<close>

lemma record_option_projections [simp]:
  "annual_projections (record_option st sv pj) = annual_projections st @ [pj]"
  by (simp add: record_option_def Let_def)





lemma robot_total_cost_contribution:
  "robot_total_cost meta n = Inr x \<Longrightarrow> x = capex_contribution meta n"
  by (auto simp: robot_total_cost_def capex_contribution_def Let_def ebind_eq_Inr
      split: option.splits json.splits)

lemma option_capex_sum:
  "option_capex meta ns acc = Inr x \<Longrightarrow> x = acc + sum_list (map (capex_contribution meta) ns)"
proof (induction ns arbitrary: acc)
  case Nil
  then show ?case by simp
next
  case (Cons n ns)
  from Cons.prems obtain c where c: "robot_total_cost meta n = Inr c"
    and rest: "option_capex meta ns (acc + c) = Inr x"
    by (auto simp: ebind_eq_Inr)
  from Cons.IH [OF rest] robot_total_cost_contribution [OF c] show ?case by simp
qed

lemma set_add_subset: "set (set_add acc x) \<subseteq> insert x (set acc)"
  by (induction acc) auto

lemma set_add_keeps: "set acc \<subseteq> set (set_add acc x)"
  by (induction acc) auto

lemma set_add_covers: "\<exists>y \<in> set (set_add acc x). py_eq y x"
  by (induction acc) auto

lemma set_add_distinct: "distinct acc \<Longrightarrow> distinct (set_add acc x)"
proof (induction acc)
  case Nil
  then show ?case by simp
next
  case (Cons y ys)
  show ?case
  proof (cases "py_eq y x")
    case True
    with Cons.prems show ?thesis by simp
  next
    case False
    then have "y \<noteq> x" by auto
    with Cons False set_add_subset [of ys x] show ?thesis by auto
  qed
qed

lemma py_set_from_props:
  "py_set_from acc xs = Inr u \<Longrightarrow> distinct acc \<Longrightarrow>
     distinct u \<and> set acc \<subseteq> set u \<and> set u \<subseteq> set acc \<union> set xs
     \<and> (\<forall>x \<in> set xs. \<exists>y \<in> set u. py_eq y x)"
proof (induction xs arbitrary: acc)
  case Nil
  then show ?case by simp
next
  case (Cons x xs)
  from Cons.prems(1) have h: "hashable x" and rest: "py_set_from (set_add acc x) xs = Inr u"
    by (auto split: if_splits)
  from Cons.IH [OF rest set_add_distinct [OF Cons.prems(2)]]
  have ih: "distinct u" "set (set_add acc x) \<subseteq> set u" "set u \<subseteq> set (set_add acc x) \<union> set xs"
    "\<forall>x \<in> set xs. \<exists>y \<in> set u. py_eq y x"
    by simp_all
  from set_add_covers [of acc x] ih(2) have "\<exists>y \<in> set u. py_eq y x" by blast
  with ih set_add_subset [of acc x] set_add_keeps [of acc x] show ?case by auto
qed

text \<open>
  The CAPEX the code computes for an evaluated option: the sum, over the distinct robot
  names in the values of the task-to-robot map built from the assignments of the first
  option with the result's \<open>option_id\<close>, of the robots' contributions.
\<close>

lemma option_capex_from_map:
  assumes "evaluate_option hc opts hts py T meta r = Inr (Some (sv, pj))"
  shows "\<exists>pre d post assigns t2r unique.
      opts = pre @ JObj d # post
    \<and> py_eq (dict_get d ''option_id'') (or_option_id r)
    \<and> (\<forall>q \<in> set pre. \<exists>j. obj_get q ''option_id'' = Inr j \<and> \<not> py_eq j (or_option_id r))
    \<and> py_iter (case map_of d ''assignments'' of None \<Rightarrow> JArr [] | Some a \<Rightarrow> a) = Inr assigns
    \<and> task_to_robot_map_from [] assigns = Inr t2r
    \<and> py_set (map snd t2r) = Inr unique
    \<and> distinct unique
    \<and> set unique \<subseteq> snd ` set t2r
    \<and> (\<forall>x \<in> snd ` set t2r. \<exists>y \<in> set unique. py_eq y x)
    \<and> op_robot_capex pj = sum_list (map (capex_contribution meta) unique)"
proof -
  from evaluate_option_SomeD [OF assms] obtain opt assignments n assigns t2r rcm wa ho
      unique capex k where
    f: "find_option opts (or_option_id r) = Inr (Some opt)" and
    g: "obj_get_default opt ''assignments'' (JArr []) = Inr assignments" and
    it: "py_iter assignments = Inr assigns" and
    t2r: "task_to_robot_map_from [] assigns = Inr t2r" and
    us: "py_set (map snd t2r) = Inr unique" and
    cap: "option_capex meta unique 0 = Inr capex" and
    pj: "pj = build_projection (or_option_id r) ho wa (ho * py) (wa * py) capex T"
    by blast
  from find_option_SomeD [OF f] obtain pre d post where
    p: "opts = pre @ JObj d # post" "opt = JObj d"
      "py_eq (dict_get d ''option_id'') (or_option_id r)"
      "\<forall>q \<in> set pre. \<exists>j. obj_get q ''option_id'' = Inr j \<and> \<not> py_eq j (or_option_id r)"
    by blast
  from g p(2) it have it': "py_iter (case map_of d ''assignments'' of None \<Rightarrow> JArr [] | Some a \<Rightarrow> a)
      = Inr assigns" by simp
  from us have u: "distinct unique" "set unique \<subseteq> snd ` set t2r"
    "\<forall>x \<in> snd ` set t2r. \<exists>y \<in> set unique. py_eq y x"
    using py_set_from_props [of "[]" "map snd t2r" unique] by (auto simp: py_set_def)
  from option_capex_sum [OF cap] pj
  have "op_robot_capex pj = sum_list (map (capex_contribution meta) unique)"
    by (simp add: build_projection_def Let_def)
  with p(1,3,4) it' t2r us u show ?thesis by blast
qed

text \<open>
  A robot named "Digit-2" without a purchase price contributes 200000 * 1.25 = 250000.
\<close>

lemma digit_2_capex_example:
  "capex_contribution
       [(JStr ''Digit-2'', [(''robot_name'', JStr ''Digit-2''), (''op_cost_per_min'', JNum (1/2))])]
       (JStr ''Digit-2'') = 200000 * (1 + 1/4)
   \<and> robot_total_cost
       [(JStr ''Digit-2'', [(''robot_name'', JStr ''Digit-2''), (''op_cost_per_min'', JNum (1/2))])]
       (JStr ''Digit-2'') = Inr 250000"
  by (simp add: capex_contribution_def eval_defs)

text \<open>
  C4 at a failing input. Option B assigns task 1 twice, first to "atlas" and then to
  "digit". Its assignments refer to both robots: line 613 lists both for the cost
  comparison, line 199 counts two automated tasks, and their contributions add up to
  312500 + 250000 = 562500. The map of line 200 keeps the last assignment of the task
  only, line 243 takes the robots from that map, and the CAPEX of the option is
  250000, the contribution of "digit" alone.
\<close>

theorem duplicate_task_id_capex:
  "robot_name_set []
     [JObj [(''task_id'', JNum 1), (''robot_name'', JStr ''atlas'')],
      JObj [(''task_id'', JNum 1), (''robot_name'', JStr ''digit'')]]
     = Inr [JStr ''atlas'', JStr ''digit'']
   \<and> sum_list (map (capex_contribution []) [JStr ''atlas'', JStr ''digit'']) = 562500
   \<and> evaluate_option 1
     [JObj [(''option_id'', JStr ''A''),
            (''assignments'', JArr
               [JObj [(''task_id'', JNum 1), (''robot_name'', JStr ''jvrc'')]])],
      JObj [(''option_id'', JStr ''B''),
            (''assignments'', JArr
               [JObj [(''task_id'', JNum 1), (''robot_name'', JStr ''atlas'')],
                JObj [(''task_id'', JNum 1), (''robot_name'', JStr ''digit'')]])]]
     [JObj [(''id'', JNum 1), (''actor_type'', JStr ''human'')]]
     124800 1 []
     \<lparr> or_option_id = JStr ''B'', or_robot_cost_comparison = [] \<rparr>
   = Inr (Some
      (\<lparr> os_option_id = JStr ''B'', os_num_automated_tasks = 2, os_num_tasks_with_savings = 0,
         os_savings_per_cycle = 0, os_annual_savings = 0, os_percent_savings = 0 \<rparr>,
       \<lparr> op_option_id = JStr ''B'', op_baseline_cost_per_cycle = 1, op_robot_cost_per_cycle = 1,
         op_annual_baseline_cost = 124800, op_annual_cost_with_automation = 124800,
         op_robot_capex = 250000, op_cumulative_costs_by_year = [250000, 374800],
         op_baseline_cumulative_costs_by_year = [0, 124800] \<rparr>))"
  by (simp add: capex_contribution_def eval_defs)

text \<open>
  C7. The pass that is to replace invalid chart values runs on the lists when they hold
  the year-0 entry only, and it replaces that entry by the expression it was computed
  from: whatever the pass finds invalid, it leaves both lists as they are. The entries
  of the years 1 and later are appended after the pass.
\<close>

theorem chart_verification_changes_nothing:
  "fix_chart invalid
     (\<lambda>i. if i = 0 then robot_capex else robot_capex + annual_cost_with_automation * real i)
     0 [robot_capex] = [robot_capex]
   \<and> fix_chart invalid (\<lambda>i. if i = 0 then 0 else annual_human_cost * real i) 0 [0] = [0]"
  by simp

text \<open>
  The sequences themselves: one entry per year from 0 to the floor of \<open>T\<close>, the CAPEX at
  year 0 and \<open>capex + annual_cost_with_automation * y\<close> at year \<open>y\<close> for the option, 0
  and \<open>annual_human_cost * y\<close> for the baseline.
\<close>

lemma fix_chart_valid: "fix_chart invalid_chart_value f i xs = xs"
  by (induction xs arbitrary: i)
     (simp_all add: invalid_chart_value_def math_isnan_def math_isinf_def)

lemma projection_sequences:
  assumes "0 \<le> T"
    and "pj = build_projection oid h a ah aa capex T"
  shows "length (op_cumulative_costs_by_year pj) = nat \<lfloor>T\<rfloor> + 1"
    and "length (op_baseline_cumulative_costs_by_year pj) = nat \<lfloor>T\<rfloor> + 1"
    and "op_cumulative_costs_by_year pj ! 0 = capex"
    and "op_baseline_cumulative_costs_by_year pj ! 0 = 0"
    and "1 \<le> y \<Longrightarrow> y \<le> nat \<lfloor>T\<rfloor> \<Longrightarrow>
           op_cumulative_costs_by_year pj ! y = capex + aa * real y
         \<and> op_baseline_cumulative_costs_by_year pj ! y = ah * real y"
proof -
  have fl: "0 \<le> \<lfloor>T\<rfloor>" using assms(1) by simp
  have cum: "op_cumulative_costs_by_year pj
      = capex # map (\<lambda>year. capex + aa * of_int year) [1..\<lfloor>T\<rfloor>]"
    and base: "op_baseline_cumulative_costs_by_year pj
      = 0 # map (\<lambda>year. ah * of_int year) [1..\<lfloor>T\<rfloor>]"
    using assms by (simp_all add: build_projection_def Let_def fix_chart_valid py_int_def)
  have len: "length [1..\<lfloor>T\<rfloor>] = nat \<lfloor>T\<rfloor>" by simp
  show "length (op_cumulative_costs_by_year pj) = nat \<lfloor>T\<rfloor> + 1"
    and "length (op_baseline_cumulative_costs_by_year pj) = nat \<lfloor>T\<rfloor> + 1"
    and "op_cumulative_costs_by_year pj ! 0 = capex"
    and "op_baseline_cumulative_costs_by_year pj ! 0 = 0"
    using cum base len by simp_all
  show "op_cumulative_costs_by_year pj ! y = capex + aa * real y
         \<and> op_baseline_cumulative_costs_by_year pj ! y = ah * real y"
    if y: "1 \<le> y" "y \<le> nat \<lfloor>T\<rfloor>"
  proof -
    obtain k where k: "y = Suc k" using y(1) by (cases y) auto
    with y(2) have kl: "k < nat \<lfloor>T\<rfloor>" by simp
    then have "1 + int k \<le> \<lfloor>T\<rfloor>" by linarith
    then have nth: "[1..\<lfloor>T\<rfloor>] ! k = 1 + int k" by (rule nth_upto)
    from kl len have "k < length [1..\<lfloor>T\<rfloor>]" by simp
    with nth show ?thesis
      by (simp add: cum base k algebra_simps)
  qed
qed

section \<open>Concrete runs\<close>

theorem analysis_result_shape_witness:
  "map fst (projr (snd (perform_full_analysis no_literal
     \<lparr> analyze_video_process = JArr [JObj [(''id'', JNum 1), (''actor_type'', JStr ''human'')]],
       get_available_robots = [JObj [(''robot_name'', JStr ''digit'')]],
       parsed_automation_options = [] \<rparr>
     (JNum 1) (JNum 5) (JNum 40) (JNum 20))))
   = [''process_tasks'', ''available_robots'', ''automation_options'',
      ''cost_benefit_analysis'', ''recommendation'', ''task_savings_analysis'',
      ''annual_projections'']"
  using analysis_result_shape [of no_literal
     "\<lparr> analyze_video_process = JArr [JObj [(''id'', JNum 1), (''actor_type'', JStr ''human'')]],
       get_available_robots = [JObj [(''robot_name'', JStr ''digit'')]],
       parsed_automation_options = [] \<rparr>" "JNum 1" "JNum 5" "JNum 40" "JNum 20"]
  by (simp add: eval_defs)


end
